theory Spec2Isabelle
  imports Main
begin

section \<open>Library behaviour the client relies on: strconv and fmt\<close>

text \<open>
  The client converts port numbers between decimal text, hexadecimal text and integers with
  \<^verbatim>\<open>strconv.Atoi\<close>, \<^verbatim>\<open>strconv.ParseInt\<close> and \<^verbatim>\<open>fmt.Sprintf\<close>. Go strings are byte
  sequences, modelled as \<open>string\<close>; Go's \<^verbatim>\<open>int\<close> is modelled as \<open>int\<close>, the 64-bit range
  being enforced where the library enforces it (the range errors of the parsers).
\<close>

datatype num_error = ErrSyntax | ErrRange

datatype error =
    NumError num_error
  | ErrorString string
  | ProtocolError int string
  | IOError string

text \<open>The value of one digit as \<^verbatim>\<open>strconv.ParseUint\<close> reads it: \<^verbatim>\<open>0-9\<close>, then letters of
  either case counting from ten.\<close>

definition digitVal :: "char \<Rightarrow> nat option" where
  "digitVal c =
     (let n = (of_char c :: nat) in
      if 48 \<le> n \<and> n \<le> 57 then Some (n - 48)
      else if 97 \<le> n \<and> n \<le> 122 then Some (n - 97 + 10)
      else if 65 \<le> n \<and> n \<le> 90 then Some (n - 65 + 10)
      else None)"

text \<open>The digit loop of \<^verbatim>\<open>strconv.ParseUint(s, base, 64)\<close> for an explicit base: a byte that is
  no digit of the base is a syntax error, a value beyond \<open>2^64 - 1\<close> a range error.\<close>

fun ParseUint_loop :: "nat \<Rightarrow> nat \<Rightarrow> string \<Rightarrow> num_error + nat" where
  "ParseUint_loop base n [] = Inr n"
| "ParseUint_loop base n (c # cs) =
     (case digitVal c of
        None \<Rightarrow> Inl ErrSyntax
      | Some d \<Rightarrow>
          if base \<le> d then Inl ErrSyntax
          else if 2 ^ 64 \<le> n * base + d then Inl ErrRange
          else ParseUint_loop base (n * base + d) cs)"

definition ParseUint :: "string \<Rightarrow> nat \<Rightarrow> num_error + nat" where
  "ParseUint s base = (if s = [] then Inl ErrSyntax else ParseUint_loop base 0 s)"

text \<open>\<^verbatim>\<open>strconv.ParseInt(s, base, 64)\<close>: an optional sign, then \<^verbatim>\<open>ParseUint\<close>, then the
  signed 64-bit range check.\<close>

definition ParseInt :: "string \<Rightarrow> nat \<Rightarrow> num_error + int" where
  "ParseInt s base =
     (case s of
        [] \<Rightarrow> Inl ErrSyntax
      | c # cs \<Rightarrow>
          (let neg = (c = CHR ''-'');
               body = (if c = CHR ''+'' \<or> c = CHR ''-'' then cs else s)
           in case ParseUint body base of
                Inl e \<Rightarrow> Inl e
              | Inr un \<Rightarrow>
                  if \<not> neg \<and> 2 ^ 63 \<le> un then Inl ErrRange
                  else if neg \<and> 2 ^ 63 < un then Inl ErrRange
                  else Inr (if neg then - int un else int un)))"

text \<open>\<^verbatim>\<open>strconv.Atoi(s)\<close> is \<^verbatim>\<open>ParseInt(s, 10, 0)\<close> on a 64-bit platform.\<close>

definition Atoi :: "string \<Rightarrow> num_error + int" where
  "Atoi s = ParseInt s 10"

text \<open>Digits of a natural number in a base, most significant first, as \<^verbatim>\<open>fmt\<close> prints them
  for the verbs \<^verbatim>\<open>%x\<close> (lower-case) and \<^verbatim>\<open>%d\<close>.\<close>

definition digitChar :: "nat \<Rightarrow> char" where
  "digitChar d = (if d < 10 then char_of (48 + d) else char_of (87 + d))"

function fmtBits :: "nat \<Rightarrow> nat \<Rightarrow> string" where
  "fmtBits base n =
     (if 2 \<le> base \<and> base \<le> n then fmtBits base (n div base) @ [digitChar (n mod base)]
      else [digitChar n])"
  by pat_completeness auto
termination
  by (relation "measure snd") auto

declare fmtBits.simps [simp del]

definition fmtInteger :: "nat \<Rightarrow> int \<Rightarrow> string" where
  "fmtInteger base p =
     (if p < 0 then CHR ''-'' # fmtBits base (nat (- p)) else fmtBits base (nat p))"

definition Sprintf_x :: "int \<Rightarrow> string" where
  "Sprintf_x p = fmtInteger 16 p"

definition Sprintf_d :: "int \<Rightarrow> string" where
  "Sprintf_d p = fmtInteger 10 p"

section \<open>The port arithmetic helpers\<close>

text \<open>\<^verbatim>\<open>ds2h\<close>: decimal text to hexadecimal text. The Go function returns the pair
  \<^verbatim>\<open>(hex, err)\<close>; on a parse error \<^verbatim>\<open>hex\<close> keeps its zero value, the empty string.\<close>

definition ds2h :: "string \<Rightarrow> string \<times> error option" where
  "ds2h dec =
     (case Atoi dec of
        Inl e \<Rightarrow> ([], Some (NumError e))
      | Inr p \<Rightarrow> (Sprintf_x p, None))"

text \<open>\<^verbatim>\<open>h2i\<close>: hexadecimal text to integer. The parse error is bound to a local \<^verbatim>\<open>e\<close>, not to
  the named result \<^verbatim>\<open>err\<close>, so the bare \<^verbatim>\<open>return\<close> of the error branch yields \<^verbatim>\<open>(0, nil)\<close>.\<close>

definition h2i :: "string \<Rightarrow> int \<times> error option" where
  "h2i hex =
     (case ParseInt hex 16 of
        Inl e \<Rightarrow> (0, None)
      | Inr r \<Rightarrow> (r, None))"

section \<open>Data model\<close>

text \<open>
  Modelled from the spec: the constants \<^verbatim>\<open>IMPLICIT\<close>, \<^verbatim>\<open>EXPLICIT\<close>, \<^verbatim>\<open>OFFLINE\<close>, \<^verbatim>\<open>ONLINE\<close>,
  \<^verbatim>\<open>DOWNLOAD\<close> and \<^verbatim>\<open>UPLOAD\<close> are declared outside \<^verbatim>\<open>ftp.go\<close>. The spec gives the security
  mode and the session state as two-valued (``\<^verbatim>\<open>IMPLICIT\<close> | \<^verbatim>\<open>EXPLICIT\<close>'', ``a two-value
  lifecycle: \<^verbatim>\<open>OFFLINE\<close> \<dots> \<^verbatim>\<open>ONLINE\<close>''), and the transfer direction as download or upload;
  each is a datatype of distinct constants here.
\<close>

datatype secure_mode = IMPLICIT | EXPLICIT

datatype session_state = OFFLINE | ONLINE

datatype direction = DOWNLOAD | UPLOAD | OtherDirection

text \<open>
  The parameter struct \<^verbatim>\<open>ftpParameters\<close> is declared outside \<^verbatim>\<open>ftp.go\<close> too; its fields are
  those that \<^verbatim>\<open>ftp.go\<close> reads. The field \<^verbatim>\<open>port\<close> is named \<open>ctrlPort\<close> here, the name \<open>port\<close>
  being kept for the method, and the field \<^verbatim>\<open>passive\<close> is named \<open>passiveMode\<close>, \<open>passive\<close> being a
  reserved word.
\<close>

record ftpParameters =
  host :: string
  ctrlPort :: int
  user :: string
  pass :: string
  secure :: bool
  secureMode :: secure_mode
  cert :: string
  key :: string
  rootCA :: string
  alwaysTrust :: bool
  passiveMode :: bool
  listenPort :: int
  keepAlive :: bool

record FtpResponse =
  command :: string
  code :: int
  msg :: string

text \<open>The parts of \<^verbatim>\<open>tls.Config\<close> that \<^verbatim>\<open>getTLSConfig\<close> sets. A certificate pool is the list of
  PEM blocks added to it; a loaded key pair is named by the two paths it was read from.\<close>

datatype cipher_suite =
    TLS_RSA_WITH_AES_128_CBC_SHA
  | TLS_RSA_WITH_AES_256_CBC_SHA
  | TLS_ECDHE_ECDSA_WITH_AES_128_CBC_SHA
  | TLS_ECDHE_ECDSA_WITH_AES_256_CBC_SHA
  | TLS_ECDHE_RSA_WITH_AES_128_CBC_SHA
  | TLS_ECDHE_RSA_WITH_AES_256_CBC_SHA
  | TLS_ECDHE_RSA_WITH_AES_128_GCM_SHA256
  | TLS_ECDHE_ECDSA_WITH_AES_128_GCM_SHA256

datatype client_auth = NoClientCert | VerifyClientCertIfGiven

datatype tls_Certificate = KeyPair string string

type_synonym CertPool = "string list"

record tls_Config =
  ClientAuth :: client_auth
  CipherSuites :: "cipher_suite list"
  Certificates :: "tls_Certificate list"
  RootCAs :: "CertPool option"
  ClientCAs :: "CertPool option"
  InsecureSkipVerify :: bool

text \<open>
  Connection handles. A \<^verbatim>\<open>net.Conn\<close> is named by the address it was dialled to (or accepted
  on). A \<^verbatim>\<open>*tls.Conn\<close> is either made by \<^verbatim>\<open>tls.Client\<close>, which accepts any transport, also
  nil, and runs the handshake at the first read or write, or made by \<^verbatim>\<open>tls.DialWithDialer\<close>,
  which has run the handshake when it returns; both carry their configuration. A
  \<^verbatim>\<open>*textproto.Conn\<close> is named by the transport under it.
\<close>

datatype net_Conn = TcpConn string

datatype tls_Conn = TlsClient "net_Conn option" tls_Config | TlsDialled net_Conn tls_Config

datatype textproto_Conn = OverRaw net_Conn | OverTls tls_Conn

datatype net_Listener = TcpListener string

text \<open>The value a data-channel negotiation hands on through \<^verbatim>\<open>interface{}\<close>.\<close>

datatype itf = NilItf | ConnItf net_Conn | ListenerItf net_Listener

text \<open>
  The session. The first five fields are the fields of \<^verbatim>\<open>Ftp\<close>, a nil handle being \<open>None\<close>.
  The last two record the history of the control channel, which lives behind \<^verbatim>\<open>ctrlConn\<close> in
  the program: the command texts handed to \<^verbatim>\<open>Cmd\<close> so far, in order, and the number of
  responses read so far.
\<close>

record Ftp =
  rawConn :: "net_Conn option"
  tlsConn :: "tls_Conn option"
  ctrlConn :: "textproto_Conn option"
  params :: ftpParameters
  State :: session_state
  issued :: "string list"
  nread :: nat

text \<open>A local network interface address, as far as \<^verbatim>\<open>getLocalIP\<close> inspects it: whether it is
  an \<^verbatim>\<open>*net.IPNet\<close>, whether it is a loopback address, and its dotted IPv4 form if it has one.\<close>

datatype net_Addr = IPNet bool "string option" | OtherAddr

text \<open>
  Everything outside the program: the resolver, the network, the server on the control
  channel, the file system and the X.509 parser. The \<open>n\<close>-th write on the control channel
  fails or not by \<open>writeLine n\<close>; the \<open>n\<close>-th response read from it is \<open>readLine n\<close>, an I/O
  error or a status code with its message. \<open>parseTIMEOUT\<close> and \<open>parseKEEPALIVE\<close> are the
  results of \<^verbatim>\<open>time.ParseDuration\<close> on the constants \<^verbatim>\<open>TIMEOUT\<close> and \<^verbatim>\<open>KEEPALIVE\<close>, which are
  declared outside \<^verbatim>\<open>ftp.go\<close>.
  \<open>ReadAll\<close> and \<open>ioCopy\<close> are the results of \<^verbatim>\<open>ioutil.ReadAll\<close> and \<^verbatim>\<open>io.Copy\<close> on the data
  channel, given the connection and the configuration of the TLS layer put on it, if any:
  with a TLS layer they include its handshake.
\<close>

record env =
  LookupIP :: "string \<Rightarrow> error + string list"
  parseTIMEOUT :: "error option"
  parseKEEPALIVE :: "error option"
  Dial :: "string \<Rightarrow> error option"
  tlsDial :: "string \<Rightarrow> tls_Config \<Rightarrow> error option"
  writeLine :: "nat \<Rightarrow> error option"
  readLine :: "nat \<Rightarrow> error + (int \<times> string)"
  LoadX509KeyPair :: "string \<Rightarrow> string \<Rightarrow> error option"
  ReadFile :: "string \<Rightarrow> error + string"
  parsesAsPEM :: "string \<Rightarrow> bool"
  InterfaceAddrs :: "error + net_Addr list"
  Listen :: "string \<Rightarrow> error option"
  Accept :: "net_Listener \<Rightarrow> error + net_Conn"
  ReadAll :: "net_Conn \<Rightarrow> tls_Config option \<Rightarrow> string \<times> error option"
  osCreate :: "string \<Rightarrow> error option"
  osOpen :: "string \<Rightarrow> error option"
  ioCopy :: "direction \<Rightarrow> string \<Rightarrow> net_Conn \<Rightarrow> tls_Config option \<Rightarrow> int \<times> error option"

text \<open>A call either returns its results or panics. Go's multiple results are a tuple, the
  error last, \<open>None\<close> for \<^verbatim>\<open>nil\<close>.\<close>

datatype 'a outcome = Returns 'a | Panics

section \<open>Transport and security layer\<close>

definition newFtp :: "ftpParameters \<Rightarrow> Ftp" where
  "newFtp p =
     \<lparr>rawConn = None, tlsConn = None, ctrlConn = None, params = p, State = OFFLINE,
      issued = [], nread = 0\<rparr>"

text \<open>\<^verbatim>\<open>getTLSConfig\<close> returns \<^verbatim>\<open>(conf, err)\<close>, \<^verbatim>\<open>conf\<close> being allocated before anything can fail,
  or panics where the source calls \<^verbatim>\<open>panic\<close>. The root material is read from the literal
  path \<^verbatim>\<open>./cert/rcaPem.pem\<close>, as in the source.\<close>

definition getTLSConfig :: "env \<Rightarrow> Ftp \<Rightarrow> (tls_Config \<times> error option) outcome" where
  "getTLSConfig env this =
     (let p = params this;
          conf = \<lparr>ClientAuth = VerifyClientCertIfGiven,
                  CipherSuites =
                    [TLS_RSA_WITH_AES_128_CBC_SHA, TLS_RSA_WITH_AES_256_CBC_SHA,
                     TLS_ECDHE_ECDSA_WITH_AES_128_CBC_SHA, TLS_ECDHE_ECDSA_WITH_AES_256_CBC_SHA,
                     TLS_ECDHE_RSA_WITH_AES_128_CBC_SHA, TLS_ECDHE_RSA_WITH_AES_256_CBC_SHA,
                     TLS_ECDHE_RSA_WITH_AES_128_GCM_SHA256,
                     TLS_ECDHE_ECDSA_WITH_AES_128_GCM_SHA256],
                  Certificates = [], RootCAs = None, ClientCAs = None,
                  InsecureSkipVerify = False\<rparr>
      in if cert p \<noteq> [] \<and> key p \<noteq> [] then
           (case LoadX509KeyPair env (cert p) (key p) of
              Some e \<Rightarrow> Returns (conf, Some e)
            | None \<Rightarrow>
                (let certPair = KeyPair (cert p) (key p); certPool = [] in
                 if rootCA p \<noteq> [] then
                   (case ReadFile env ''./cert/rcaPem.pem'' of
                      Inl e \<Rightarrow> Returns (conf, Some e)
                    | Inr rcaPem \<Rightarrow>
                        if alwaysTrust p \<and> \<not> parsesAsPEM env rcaPem then Panics
                        else
                          (let certPool' = (if alwaysTrust p then certPool @ [rcaPem] else certPool)
                           in Returns
                                (conf\<lparr>RootCAs := Some certPool', Certificates := [certPair],
                                   ClientCAs := Some certPool',
                                   InsecureSkipVerify := alwaysTrust p\<rparr>, None)))
                 else
                   Returns
                     (conf\<lparr>Certificates := [certPair], ClientCAs := Some certPool,
                        InsecureSkipVerify := alwaysTrust p\<rparr>, None)))
         else Returns (conf\<lparr>InsecureSkipVerify := alwaysTrust p\<rparr>, None))"

definition secureUpgrade :: "env \<Rightarrow> Ftp \<Rightarrow> error option outcome \<times> Ftp" where
  "secureUpgrade env this =
     (case getTLSConfig env this of
        Panics \<Rightarrow> (Panics, this)
      | Returns (conf, Some e) \<Rightarrow> (Returns (Some e), this)
      | Returns (conf, None) \<Rightarrow>
          (let t = TlsClient (rawConn this) conf
           in (Returns None, this\<lparr>tlsConn := Some t, ctrlConn := Some (OverTls t)\<rparr>)))"

section \<open>Command/response engine\<close>

text \<open>
  What a read or write on the control connection meets before any byte moves. On a TLS
  layer made by \<^verbatim>\<open>tls.Client\<close> the first read or write runs the handshake, and every later
  one returns its error again. \<^verbatim>\<open>getTLSConfig\<close> never sets \<^verbatim>\<open>ServerName\<close>, so with
  \<^verbatim>\<open>InsecureSkipVerify\<close> off the handshake is refused before the transport is touched
  (\<open>handshakeRefusal\<close>); with it on, the handshake writes to the transport, which panics when
  that is nil. A raw socket and a dialled TLS layer carry traffic (\<open>transportLive\<close>).
\<close>

fun handshakeRefusal :: "textproto_Conn \<Rightarrow> error option" where
  "handshakeRefusal (OverRaw c) = None"
| "handshakeRefusal (OverTls (TlsDialled c conf)) = None"
| "handshakeRefusal (OverTls (TlsClient t conf)) =
     (if InsecureSkipVerify conf then None
      else Some (ErrorString
        ''tls: either ServerName or InsecureSkipVerify must be specified in the tls.Config''))"

fun transportLive :: "textproto_Conn \<Rightarrow> bool" where
  "transportLive (OverRaw c) = True"
| "transportLive (OverTls (TlsDialled c conf)) = True"
| "transportLive (OverTls (TlsClient None conf)) = False"
| "transportLive (OverTls (TlsClient (Some c) conf)) = InsecureSkipVerify conf"

text \<open>The comparison \<^verbatim>\<open>textproto\<close> makes between the expected code and the code read: a
  one-digit or two-digit expectation is a prefix, a three-digit one is exact.\<close>

definition codeMismatch :: "int \<Rightarrow> int \<Rightarrow> bool" where
  "codeMismatch expectCode c =
     (1 \<le> expectCode \<and> expectCode < 10 \<and> c div 100 \<noteq> expectCode
      \<or> 10 \<le> expectCode \<and> expectCode < 100 \<and> c div 10 \<noteq> expectCode
      \<or> 100 \<le> expectCode \<and> expectCode < 1000 \<and> c \<noteq> expectCode)"

definition ReadResponse ::
  "env \<Rightarrow> Ftp \<Rightarrow> int \<Rightarrow> (int \<times> string \<times> error option) outcome \<times> Ftp" where
  "ReadResponse env this expectCode =
     (case ctrlConn this of
        None \<Rightarrow> (Panics, this)
      | Some conn \<Rightarrow>
          if \<not> transportLive conn then
            (case handshakeRefusal conn of
               Some e \<Rightarrow> (Returns (0, [], Some e), this)
             | None \<Rightarrow> (Panics, this))
          else
            (let this' = this\<lparr>nread := Suc (nread this)\<rparr>
             in case readLine env (nread this) of
                  Inl e \<Rightarrow> (Returns (0, [], Some e), this')
                | Inr (c, m) \<Rightarrow>
                    if codeMismatch expectCode c
                    then (Returns (c, m, Some (ProtocolError c m)), this')
                    else (Returns (c, m, None), this')))"

text \<open>\<^verbatim>\<open>Command\<close> returns \<^verbatim>\<open>(res, err)\<close> with \<^verbatim>\<open>res\<close> nil on every error path and \<^verbatim>\<open>err\<close> nil
  otherwise: a sum.\<close>

definition Command ::
  "env \<Rightarrow> Ftp \<Rightarrow> string \<Rightarrow> int \<Rightarrow> (error + FtpResponse) outcome \<times> Ftp" where
  "Command env this cmd expect =
     (case ctrlConn this of
        None \<Rightarrow> (Panics, this)
      | Some conn \<Rightarrow>
          if \<not> transportLive conn then
            (case handshakeRefusal conn of
               Some e \<Rightarrow> (Returns (Inl e), this\<lparr>issued := issued this @ [cmd]\<rparr>)
             | None \<Rightarrow> (Panics, this))
          else
            (let this' = this\<lparr>issued := issued this @ [cmd]\<rparr>
             in case writeLine env (length (issued this)) of
                  Some e \<Rightarrow> (Returns (Inl e), this')
                | None \<Rightarrow>
                    (case ReadResponse env this' expect of
                       (Panics, this'') \<Rightarrow> (Panics, this'')
                     | (Returns (c, m, Some e), this'') \<Rightarrow> (Returns (Inl e), this'')
                     | (Returns (c, m, None), this'') \<Rightarrow>
                         (Returns (Inr \<lparr>command = cmd, code = c, msg = m\<rparr>), this''))))"

text \<open>\<^verbatim>\<open>connect\<close>. The two dial assignments store their result in the session even when the
  dial fails (a nil handle then); \<^verbatim>\<open>State\<close> is written on the last line only.\<close>

definition connect :: "env \<Rightarrow> Ftp \<Rightarrow> (error + FtpResponse) outcome \<times> Ftp" where
  "connect env this =
     (let p = params this in
      case LookupIP env (host p) of
        Inl e \<Rightarrow> (Returns (Inl e), this)
      | Inr [] \<Rightarrow> (Panics, this)
      | Inr (ip0 # ips) \<Rightarrow>
          (let addr = ip0 @ '':'' @ Sprintf_d (ctrlPort p) in
           case parseTIMEOUT env of
             Some e \<Rightarrow> (Returns (Inl e), this)
           | None \<Rightarrow>
          (case parseKEEPALIVE env of
             Some e \<Rightarrow> (Returns (Inl e), this)
           | None \<Rightarrow>
          (case
             (if secure p \<and> secureMode p = IMPLICIT then
                (case getTLSConfig env this of
                   Panics \<Rightarrow> (Panics, this)
                 | Returns (conf, Some e) \<Rightarrow> (Returns (Some e), this)
                 | Returns (conf, None) \<Rightarrow>
                     (case tlsDial env addr conf of
                        Some e \<Rightarrow> (Returns (Some e), this\<lparr>tlsConn := None\<rparr>)
                      | None \<Rightarrow>
                          (let t = TlsDialled (TcpConn addr) conf
                           in (Returns None,
                               this\<lparr>tlsConn := Some t, ctrlConn := Some (OverTls t)\<rparr>))))
              else
                (case Dial env addr of
                   Some e \<Rightarrow> (Returns (Some e), this\<lparr>rawConn := None\<rparr>)
                 | None \<Rightarrow>
                     (Returns None,
                      this\<lparr>rawConn := Some (TcpConn addr),
                           ctrlConn := Some (OverRaw (TcpConn addr))\<rparr>)))
           of
             (Panics, this') \<Rightarrow> (Panics, this')
           | (Returns (Some e), this') \<Rightarrow> (Returns (Inl e), this')
           | (Returns None, this') \<Rightarrow>
               (case ReadResponse env this' 220 of
                  (Panics, this'') \<Rightarrow> (Panics, this'')
                | (Returns (c, m, Some e), this'') \<Rightarrow> (Returns (Inl e), this'')
                | (Returns (c, m, None), this'') \<Rightarrow>
                    (Returns (Inr \<lparr>command = [], code = c, msg = m\<rparr>),
                     this''\<lparr>State := ONLINE\<rparr>))))))"

text \<open>\<^verbatim>\<open>auth\<close> returns the responses gathered so far together with the error. The exchange of
  \<^verbatim>\<open>USER\<close> and \<^verbatim>\<open>PASS\<close> (the second half of the source function) is \<open>auth_login\<close>, which starts
  from the responses gathered before it.\<close>

definition auth_login ::
  "env \<Rightarrow> Ftp \<Rightarrow> FtpResponse list \<Rightarrow> (FtpResponse list \<times> error option) outcome \<times> Ftp" where
  "auth_login env this res =
     (case Command env this (''USER '' @ user (params this)) 331 of
        (Panics, this') \<Rightarrow> (Panics, this')
      | (Returns (Inl e), this') \<Rightarrow> (Returns (res, Some e), this')
      | (Returns (Inr r), this') \<Rightarrow>
          (case Command env this' (''PASS '' @ pass (params this')) 230 of
             (Panics, this'') \<Rightarrow> (Panics, this'')
           | (Returns (Inl e), this'') \<Rightarrow> (Returns (res @ [r], Some e), this'')
           | (Returns (Inr r'), this'') \<Rightarrow> (Returns (res @ [r, r'], None), this'')))"

definition auth :: "env \<Rightarrow> Ftp \<Rightarrow> (FtpResponse list \<times> error option) outcome \<times> Ftp" where
  "auth env this =
     (if secure (params this) \<and> secureMode (params this) = EXPLICIT then
        (case Command env this ''AUTH TLS'' 234 of
           (Panics, this') \<Rightarrow> (Panics, this')
         | (Returns (Inl e), this') \<Rightarrow> (Returns ([], Some e), this')
         | (Returns (Inr r), this') \<Rightarrow>
             (case secureUpgrade env this' of
                (Panics, this'') \<Rightarrow> (Panics, this'')
              | (Returns (Some e), this'') \<Rightarrow> (Returns ([r], Some e), this'')
              | (Returns None, this'') \<Rightarrow> auth_login env this'' [r]))
      else auth_login env this [])"

text \<open>\<^verbatim>\<open>options\<close>. The result list is first assigned after \<^verbatim>\<open>SYST\<close> has succeeded; before
  that it is nil, the empty list. The last exchange, \<^verbatim>\<open>TYPE I\<close>, is \<open>options_type\<close>.\<close>

definition options_type ::
  "env \<Rightarrow> Ftp \<Rightarrow> FtpResponse list \<Rightarrow> (FtpResponse list \<times> error option) outcome \<times> Ftp" where
  "options_type env this res =
     (case Command env this ''TYPE I'' 200 of
        (Panics, this') \<Rightarrow> (Panics, this')
      | (Returns (Inl e), this') \<Rightarrow> (Returns (res, Some e), this')
      | (Returns (Inr r), this') \<Rightarrow> (Returns (res @ [r], None), this'))"

definition options :: "env \<Rightarrow> Ftp \<Rightarrow> (FtpResponse list \<times> error option) outcome \<times> Ftp" where
  "options env this =
     (case Command env this ''SYST'' 215 of
        (Panics, t1) \<Rightarrow> (Panics, t1)
      | (Returns (Inl e), t1) \<Rightarrow> (Returns ([], Some e), t1)
      | (Returns (Inr r1), t1) \<Rightarrow>
     (case Command env t1 ''FEAT'' 211 of
        (Panics, t2) \<Rightarrow> (Panics, t2)
      | (Returns (Inl e), t2) \<Rightarrow> (Returns ([r1], Some e), t2)
      | (Returns (Inr r2), t2) \<Rightarrow>
     (case Command env t2 ''OPTS UTF8 ON'' 200 of
        (Panics, t3) \<Rightarrow> (Panics, t3)
      | (Returns (Inl e), t3) \<Rightarrow> (Returns ([r1, r2], Some e), t3)
      | (Returns (Inr r3), t3) \<Rightarrow>
          if secure (params t3) then
            (case Command env t3 ''PROT P'' 200 of
               (Panics, t4) \<Rightarrow> (Panics, t4)
             | (Returns (Inl e), t4) \<Rightarrow> (Returns ([r1, r2, r3], Some e), t4)
             | (Returns (Inr r4), t4) \<Rightarrow> options_type env t4 [r1, r2, r3, r4])
          else options_type env t3 [r1, r2, r3])))"

section \<open>Data channel negotiator\<close>

text \<open>\<^verbatim>\<open>getLocalIP\<close>: the loop overwrites \<^verbatim>\<open>ip\<close> at every non-loopback IPv4 address.\<close>

fun getLocalIP_loop :: "net_Addr list \<Rightarrow> string \<Rightarrow> string" where
  "getLocalIP_loop [] ip = ip"
| "getLocalIP_loop (IPNet loopback (Some v4) # addrs) ip =
     getLocalIP_loop addrs (if \<not> loopback then v4 else ip)"
| "getLocalIP_loop (a # addrs) ip = getLocalIP_loop addrs ip"

definition getLocalIP :: "env \<Rightarrow> string \<times> error option" where
  "getLocalIP env =
     (case InterfaceAddrs env of
        Inl e \<Rightarrow> ([], Some e)
      | Inr addrs \<Rightarrow>
          (let ip = getLocalIP_loop addrs [] in
           if ip = [] then ([], Some (ErrorString ''Could not get the Local Address.''))
           else (ip, None)))"

text \<open>\<^verbatim>\<open>getSplitPorts\<close> returns \<^verbatim>\<open>(port1, port2, err)\<close>. \<^verbatim>\<open>hex[:1]\<close> is \<open>take 1\<close>, \<^verbatim>\<open>hex[1:3]\<close> is
  \<open>take 2 (drop 1 hex)\<close>, in range in the branch where they are used.\<close>

definition getSplitPorts :: "Ftp \<Rightarrow> int \<times> int \<times> error option" where
  "getSplitPorts this =
     (let hex = Sprintf_x (listenPort (params this)) in
      if length hex = 1 \<or> length hex = 2 then
        (case h2i hex of (port2, err) \<Rightarrow> (0, port2, err))
      else if length hex = 3 then
        (case h2i (take 1 hex) of
           (port1, Some e) \<Rightarrow> (port1, 0, Some e)
         | (port1, None) \<Rightarrow> (case h2i (take 2 (drop 1 hex)) of (port2, err) \<Rightarrow> (port1, port2, err)))
      else if length hex = 4 then
        (case h2i (take 2 hex) of
           (port1, Some e) \<Rightarrow> (port1, 0, Some e)
         | (port1, None) \<Rightarrow> (case h2i (take 2 (drop 2 hex)) of (port2, err) \<Rightarrow> (port1, port2, err)))
      else
        (0, 0,
         Some (ErrorString
           ''The Port Number could not converted to the Parameter Format for the Listen Function.'')))"

text \<open>\<^verbatim>\<open>port\<close> returns \<^verbatim>\<open>(res, listener, err)\<close>: the listener is nil exactly when \<^verbatim>\<open>err\<close> is not,
  and then \<^verbatim>\<open>res\<close> may already be set. So the result is a sum: the error with the response
  obtained so far, or the response with the listener.\<close>

definition port ::
  "env \<Rightarrow> Ftp \<Rightarrow> (FtpResponse option \<times> error + FtpResponse \<times> net_Listener) outcome \<times> Ftp" where
  "port env this =
     (case getLocalIP env of
        (localIP, Some e) \<Rightarrow> (Returns (Inl (None, e)), this)
      | (localIP, None) \<Rightarrow>
          (let ip = map (\<lambda>c. if c = CHR ''.'' then CHR '','' else c) localIP in
           case getSplitPorts this of
             (p1, p2, Some e) \<Rightarrow> (Returns (Inl (None, e)), this)
           | (p1, p2, None) \<Rightarrow>
               (let cmd = ''PORT '' @ ip @ '','' @ Sprintf_d p1 @ '','' @ Sprintf_d p2 in
                case Command env this cmd 200 of
                  (Panics, this') \<Rightarrow> (Panics, this')
                | (Returns (Inl e), this') \<Rightarrow> (Returns (Inl (None, e)), this')
                | (Returns (Inr res), this') \<Rightarrow>
                    (let laddr = localIP @ '':'' @ Sprintf_d (listenPort (params this')) in
                     case Listen env laddr of
                       Some e \<Rightarrow> (Returns (Inl (Some res, e)), this')
                     | None \<Rightarrow> (Returns (Inr (res, TcpListener laddr)), this')))))"

text \<open>
  The pattern of \<^verbatim>\<open>pasv\<close> is five groups \<^verbatim>\<open>([0-9]+?),\<close> and a last group \<^verbatim>\<open>([0-9]+)\<close>. A lazy
  group followed by a comma can only end where the digits end, a comma being no digit, so at
  a given start the match is determined: five maximal non-empty digit runs, each followed by
  a comma, then a maximal non-empty digit run. \<^verbatim>\<open>FindAllStringSubmatch\<close> scans from the left,
  so \<^verbatim>\<open>matches[0]\<close> is the match at the first start that has one; it holds the whole match
  and then the six groups.
\<close>

definition isDigit :: "char \<Rightarrow> bool" where
  "isDigit c = (48 \<le> (of_char c :: nat) \<and> (of_char c :: nat) \<le> 57)"

definition digitsThenComma :: "string \<Rightarrow> (string \<times> string) option" where
  "digitsThenComma s =
     (let d = takeWhile isDigit s in
      if d = [] then None
      else (case dropWhile isDigit s of
              [] \<Rightarrow> None
            | c # rest \<Rightarrow> if c = CHR '','' then Some (d, rest) else None))"

fun lazyGroups :: "nat \<Rightarrow> string \<Rightarrow> (string list \<times> string) option" where
  "lazyGroups 0 s = Some ([], s)"
| "lazyGroups (Suc n) s =
     (case digitsThenComma s of
        None \<Rightarrow> None
      | Some (d, rest) \<Rightarrow>
          (case lazyGroups n rest of
             None \<Rightarrow> None
           | Some (ds, rest') \<Rightarrow> Some (d # ds, rest')))"

definition matchAt :: "string \<Rightarrow> string list option" where
  "matchAt s =
     (case lazyGroups 5 s of
        None \<Rightarrow> None
      | Some (ds, rest) \<Rightarrow>
          (let d6 = takeWhile isDigit rest in
           if d6 = [] then None
           else Some (take (length s - length (dropWhile isDigit rest)) s # ds @ [d6])))"

fun FindAllStringSubmatch_first :: "string \<Rightarrow> string list option" where
  "FindAllStringSubmatch_first [] = None"
| "FindAllStringSubmatch_first (c # cs) =
     (case matchAt (c # cs) of
        Some tmp \<Rightarrow> Some tmp
      | None \<Rightarrow> FindAllStringSubmatch_first cs)"

text \<open>The port computation of \<^verbatim>\<open>pasv\<close>, from the reply text to the port: \<^verbatim>\<open>matches[0]\<close> panics
  when nothing matched; \<^verbatim>\<open>tmp[5]\<close> and \<^verbatim>\<open>tmp[6]\<close> are in range, a match having seven entries.\<close>

definition pasv_port :: "string \<Rightarrow> (error + int) outcome" where
  "pasv_port m =
     (case FindAllStringSubmatch_first m of
        None \<Rightarrow> Panics
      | Some tmp \<Rightarrow>
          (case ds2h (tmp ! 5) of
             (hex1, Some e) \<Rightarrow> Returns (Inl e)
           | (hex1, None) \<Rightarrow>
               (case ds2h (tmp ! 6) of
                  (hex2, Some e) \<Rightarrow> Returns (Inl e)
                | (hex2, None) \<Rightarrow>
                    (case h2i (hex1 @ hex2) of
                       (n, Some e) \<Rightarrow> Returns (Inl e)
                     | (n, None) \<Rightarrow> Returns (Inr n)))))"

text \<open>\<^verbatim>\<open>pasv\<close> returns \<^verbatim>\<open>(res, dataConn, err)\<close>, a sum like the result of \<open>port\<close>. The address
  dialled is the first resolved address of the control host with the computed port.\<close>

definition pasv ::
  "env \<Rightarrow> Ftp \<Rightarrow> (FtpResponse option \<times> error + FtpResponse \<times> net_Conn) outcome \<times> Ftp" where
  "pasv env this =
     (case Command env this ''PASV'' 227 of
        (Panics, this') \<Rightarrow> (Panics, this')
      | (Returns (Inl e), this') \<Rightarrow> (Returns (Inl (None, e)), this')
      | (Returns (Inr res), this') \<Rightarrow>
          (case LookupIP env (host (params this')) of
             Inl e \<Rightarrow> (Returns (Inl (Some res, e)), this')
           | Inr ip \<Rightarrow>
               (case pasv_port (msg res) of
                  Panics \<Rightarrow> (Panics, this')
                | Returns (Inl e) \<Rightarrow> (Returns (Inl (Some res, e)), this')
                | Returns (Inr n) \<Rightarrow>
                    (case ip of
                       [] \<Rightarrow> (Panics, this')
                     | ip0 # ips \<Rightarrow>
                         (let param = ip0 @ '':'' @ Sprintf_d n in
                          case Dial env param of
                            Some e \<Rightarrow> (Returns (Inl (Some res, e)), this')
                          | None \<Rightarrow> (Returns (Inr (res, TcpConn param)), this'))))))"

section \<open>Transfer engine\<close>

text \<open>\<^verbatim>\<open>readBytes\<close> returns \<^verbatim>\<open>(res, bytes, err)\<close>: \<^verbatim>\<open>res\<close> is set on the last line only, \<^verbatim>\<open>bytes\<close> is
  whatever \<^verbatim>\<open>ReadAll\<close> delivered.\<close>

definition readBytes ::
  "env \<Rightarrow> Ftp \<Rightarrow> itf \<Rightarrow> (string \<times> error + FtpResponse \<times> string) outcome \<times> Ftp" where
  "readBytes env this i =
     (let p = params this in
      case
        (if passiveMode p then
           (case i of
              ConnItf dc \<Rightarrow> Inr dc
            | _ \<Rightarrow> Inl (ErrorString ''Invalid parameter were bound, net.Conn is not found.''))
         else
           (case i of
              ListenerItf listener \<Rightarrow> Accept env listener
            | _ \<Rightarrow> Inl (ErrorString ''Invalid parameter were bound, net.Listener is not found.'')))
      of
        Inl e \<Rightarrow> (Returns (Inl ([], e)), this)
      | Inr dataConn \<Rightarrow>
          (case
             (if secure p then
                (case getTLSConfig env this of
                   Panics \<Rightarrow> Panics
                 | Returns (conf, Some e) \<Rightarrow> Returns ([], Some e)
                 | Returns (conf, None) \<Rightarrow> Returns (ReadAll env dataConn (Some conf)))
              else Returns (ReadAll env dataConn None))
           of
             Panics \<Rightarrow> (Panics, this)
           | Returns (bytes, Some e) \<Rightarrow> (Returns (Inl (bytes, e)), this)
           | Returns (bytes, None) \<Rightarrow>
               (case ReadResponse env this 226 of
                  (Panics, this') \<Rightarrow> (Panics, this')
                | (Returns (c, m, Some e), this') \<Rightarrow> (Returns (Inl (bytes, e)), this')
                | (Returns (c, m, None), this') \<Rightarrow>
                    (Returns (Inr (\<lparr>command = [], code = c, msg = m\<rparr>, bytes)), this'))))"

text \<open>\<^verbatim>\<open>fileTransfer\<close> returns \<^verbatim>\<open>(res, len, err)\<close> in the same way; \<^verbatim>\<open>len\<close> is what \<^verbatim>\<open>io.Copy\<close>
  reported, zero before the copy. \<open>layer\<close> is the configuration of the TLS layer on the data
  connection, \<open>None\<close> without security.\<close>

definition fileTransfer ::
  "env \<Rightarrow> Ftp \<Rightarrow> direction \<Rightarrow> string \<Rightarrow> itf \<Rightarrow>
     (int \<times> error + FtpResponse \<times> int) outcome \<times> Ftp" where
  "fileTransfer env this dir uri i =
     (let p = params this in
      case
        (if passiveMode p then
           (case i of
              ConnItf c \<Rightarrow> Inr c
            | _ \<Rightarrow> Inl (ErrorString
                ''Invalid parameter were bound, Value of the argument 'itf' must be the Type 'net.Conn' when the Passive Mode specified by the Parameter.''))
         else
           (case i of
              ListenerItf listener \<Rightarrow> Accept env listener
            | _ \<Rightarrow> Inl (ErrorString
                ''Invalid parameter were bound, Value of the argument 'itf' must be the Type 'net.Listener' whern the Active Mode speciffied by the Parameter'')))
      of
        Inl e \<Rightarrow> (Returns (Inl (0, e)), this)
      | Inr dataConn \<Rightarrow>
          (case (if secure p then
                   (case getTLSConfig env this of
                      Panics \<Rightarrow> Panics
                    | Returns (conf, Some e) \<Rightarrow> Returns (Inl e)
                    | Returns (conf, None) \<Rightarrow> Returns (Inr (Some conf)))
                 else Returns (Inr None)) of
             Panics \<Rightarrow> (Panics, this)
           | Returns (Inl e) \<Rightarrow> (Returns (Inl (0, e)), this)
           | Returns (Inr layer) \<Rightarrow>
               (case
                  (case dir of
                     DOWNLOAD \<Rightarrow> osCreate env uri
                   | UPLOAD \<Rightarrow> osOpen env uri
                   | OtherDirection \<Rightarrow>
                       Some (ErrorString
                         ''The Argument 'direction' must be the either 'DOWNLOAD' or 'UPLOAD'.''))
                of
                  Some e \<Rightarrow> (Returns (Inl (0, e)), this)
                | None \<Rightarrow>
                    (case ioCopy env dir uri dataConn layer of
                       (n, Some e) \<Rightarrow> (Returns (Inl (n, e)), this)
                     | (n, None) \<Rightarrow>
                         (case ReadResponse env this 226 of
                            (Panics, this') \<Rightarrow> (Panics, this')
                          | (Returns (c, m, Some e), this') \<Rightarrow> (Returns (Inl (n, e)), this')
                          | (Returns (c, m, None), this') \<Rightarrow>
                              (Returns (Inr (\<lparr>command = [], code = c, msg = m\<rparr>, n)),
                               this'))))))"

section \<open>Session lifecycle\<close>

text \<open>
  \<^verbatim>\<open>quit\<close>. Deferring \<^verbatim>\<open>this.rawConn.Close()\<close> on a nil interface panics at the \<^verbatim>\<open>defer\<close>
  statement, before \<^verbatim>\<open>QUIT\<close> is sent; the deferred \<^verbatim>\<open>this.tlsConn.Close()\<close> panics when it
  runs, after the exchange, if the handle is nil or wraps a nil transport. Closing leaves the
  fields of the session as they are.
\<close>

fun tlsCloses :: "tls_Conn option \<Rightarrow> bool" where
  "tlsCloses None = False"
| "tlsCloses (Some (TlsClient None conf)) = False"
| "tlsCloses (Some (TlsClient (Some c) conf)) = True"
| "tlsCloses (Some (TlsDialled c conf)) = True"

definition quit :: "env \<Rightarrow> Ftp \<Rightarrow> (error + FtpResponse) outcome \<times> Ftp" where
  "quit env this =
     (if secureMode (params this) \<noteq> IMPLICIT \<and> rawConn this = None then (Panics, this)
      else
        (case Command env this ''QUIT'' 221 of
           (Panics, this') \<Rightarrow> (Panics, this')
         | (Returns r, this') \<Rightarrow>
             if secure (params this) \<and> \<not> tlsCloses (tlsConn this) then (Panics, this')
             else (Returns r, this')))"

text \<open>
  The deferred closure of \<^verbatim>\<open>list\<close>, \<^verbatim>\<open>download\<close> and \<^verbatim>\<open>upload\<close>, registered when the keep-alive
  flag is off. It runs when the body has returned or panicked, on the named results of the
  body: it assigns the error of \<^verbatim>\<open>quit\<close> to \<^verbatim>\<open>err\<close> and, when that is nil, appends the
  response of \<^verbatim>\<open>quit\<close> to \<^verbatim>\<open>res\<close>. A panic of the body goes on after it.
\<close>

definition deferredQuit ::
  "env \<Rightarrow> (FtpResponse list \<times> 'x \<times> error option) outcome \<times> Ftp \<Rightarrow>
     (FtpResponse list \<times> 'x \<times> error option) outcome \<times> Ftp" where
  "deferredQuit env body =
     (case body of
        (Panics, this') \<Rightarrow> (Panics, snd (quit env this'))
      | (Returns (res, x, err), this') \<Rightarrow>
          (case quit env this' of
             (Panics, this'') \<Rightarrow> (Panics, this'')
           | (Returns (Inl e), this'') \<Rightarrow> (Returns (res, x, Some e), this'')
           | (Returns (Inr r), this'') \<Rightarrow> (Returns (res @ [r], x, None), this'')))"

text \<open>The negotiation that opens each of the three operations: \<^verbatim>\<open>pasv\<close> or \<^verbatim>\<open>port\<close> by the
  passive flag, the handle stored in an \<^verbatim>\<open>interface{}\<close>.\<close>

definition negotiate ::
  "env \<Rightarrow> Ftp \<Rightarrow> (error + FtpResponse \<times> itf) outcome \<times> Ftp" where
  "negotiate env this =
     (if passiveMode (params this) then
        (case pasv env this of
           (Panics, this') \<Rightarrow> (Panics, this')
         | (Returns (Inl (r, e)), this') \<Rightarrow> (Returns (Inl e), this')
         | (Returns (Inr (r, dc)), this') \<Rightarrow> (Returns (Inr (r, ConnItf dc)), this'))
      else
        (case port env this of
           (Panics, this') \<Rightarrow> (Panics, this')
         | (Returns (Inl (r, e)), this') \<Rightarrow> (Returns (Inl e), this')
         | (Returns (Inr (r, l)), this') \<Rightarrow> (Returns (Inr (r, ListenerItf l)), this')))"

definition list_body ::
  "env \<Rightarrow> Ftp \<Rightarrow> string \<Rightarrow> (FtpResponse list \<times> string \<times> error option) outcome \<times> Ftp" where
  "list_body env this p =
     (let cmd = ''LIST -aL '' @ p in
      case negotiate env this of
        (Panics, t1) \<Rightarrow> (Panics, t1)
      | (Returns (Inl e), t1) \<Rightarrow> (Returns ([], [], Some e), t1)
      | (Returns (Inr (r1, i)), t1) \<Rightarrow>
          (case Command env t1 cmd 150 of
             (Panics, t2) \<Rightarrow> (Panics, t2)
           | (Returns (Inl e), t2) \<Rightarrow> (Returns ([r1], [], Some e), t2)
           | (Returns (Inr r2), t2) \<Rightarrow>
               (case readBytes env t2 i of
                  (Panics, t3) \<Rightarrow> (Panics, t3)
                | (Returns (Inl (bytes, e)), t3) \<Rightarrow> (Returns ([r1, r2], [], Some e), t3)
                | (Returns (Inr (r3, bytes)), t3) \<Rightarrow>
                    (Returns ([r1, r2, r3], bytes, None), t3))))"

definition list ::
  "env \<Rightarrow> Ftp \<Rightarrow> string \<Rightarrow> (FtpResponse list \<times> string \<times> error option) outcome \<times> Ftp" where
  "list env this p =
     (if \<not> keepAlive (params this) then deferredQuit env (list_body env this p)
      else list_body env this p)"

definition transfer_body ::
  "env \<Rightarrow> Ftp \<Rightarrow> direction \<Rightarrow> string \<Rightarrow> string \<Rightarrow>
     (FtpResponse list \<times> int \<times> error option) outcome \<times> Ftp" where
  "transfer_body env this dir cmd local =
     (case negotiate env this of
        (Panics, t1) \<Rightarrow> (Panics, t1)
      | (Returns (Inl e), t1) \<Rightarrow> (Returns ([], 0, Some e), t1)
      | (Returns (Inr (r1, i)), t1) \<Rightarrow>
          (case Command env t1 cmd 150 of
             (Panics, t2) \<Rightarrow> (Panics, t2)
           | (Returns (Inl e), t2) \<Rightarrow> (Returns ([r1], 0, Some e), t2)
           | (Returns (Inr r2), t2) \<Rightarrow>
               (case fileTransfer env t2 dir local i of
                  (Panics, t3) \<Rightarrow> (Panics, t3)
                | (Returns (Inl (n, e)), t3) \<Rightarrow> (Returns ([r1, r2], n, Some e), t3)
                | (Returns (Inr (r3, n)), t3) \<Rightarrow> (Returns ([r1, r2, r3], n, None), t3))))"

definition download ::
  "env \<Rightarrow> Ftp \<Rightarrow> string \<Rightarrow> string \<Rightarrow>
     (FtpResponse list \<times> int \<times> error option) outcome \<times> Ftp" where
  "download env this local remote =
     (if \<not> keepAlive (params this)
      then deferredQuit env (transfer_body env this DOWNLOAD (''RETR '' @ remote) local)
      else transfer_body env this DOWNLOAD (''RETR '' @ remote) local)"

definition upload ::
  "env \<Rightarrow> Ftp \<Rightarrow> string \<Rightarrow> string \<Rightarrow>
     (FtpResponse list \<times> int \<times> error option) outcome \<times> Ftp" where
  "upload env this local remote =
     (if \<not> keepAlive (params this)
      then deferredQuit env (transfer_body env this UPLOAD (''STOR '' @ remote) local)
      else transfer_body env this UPLOAD (''STOR '' @ remote) local)"

section \<open>Simple control operations\<close>

definition mkdir :: "env \<Rightarrow> Ftp \<Rightarrow> string \<Rightarrow> (error + FtpResponse) outcome \<times> Ftp" where
  "mkdir env this p = Command env this (''MKD '' @ p) 257"

definition rmdir :: "env \<Rightarrow> Ftp \<Rightarrow> string \<Rightarrow> (error + FtpResponse) outcome \<times> Ftp" where
  "rmdir env this p = Command env this (''RMD '' @ p) 250"

definition delete :: "env \<Rightarrow> Ftp \<Rightarrow> string \<Rightarrow> (error + FtpResponse) outcome \<times> Ftp" where
  "delete env this p = Command env this (''DELE '' @ p) 200"

definition rename ::
  "env \<Rightarrow> Ftp \<Rightarrow> string \<Rightarrow> string \<Rightarrow> (FtpResponse list \<times> error option) outcome \<times> Ftp" where
  "rename env this old new =
     (case Command env this (''RNFR '' @ old) 350 of
        (Panics, t1) \<Rightarrow> (Panics, t1)
      | (Returns (Inl e), t1) \<Rightarrow> (Returns ([], Some e), t1)
      | (Returns (Inr r1), t1) \<Rightarrow>
          (case Command env t1 (''RNTO '' @ new) 250 of
             (Panics, t2) \<Rightarrow> (Panics, t2)
           | (Returns (Inl e), t2) \<Rightarrow> (Returns ([r1], Some e), t2)
           | (Returns (Inr r2), t2) \<Rightarrow> (Returns ([r1, r2], None), t2)))"

section \<open>A scripted environment\<close>

text \<open>
  For concrete runs: an environment in which every call outside the program succeeds, no
  file exists, and the server answers the reads on the control channel from a fixed list of
  replies, the channel being at its end after the last one; and a session with plain
  parameters that has been connected over a raw socket.
\<close>

definition scriptedEnv :: "(int \<times> string) list \<Rightarrow> env" where
  "scriptedEnv replies =
     \<lparr>LookupIP = (\<lambda>h. Inr [''192.0.2.7'']),
      parseTIMEOUT = None,
      parseKEEPALIVE = None,
      Dial = (\<lambda>a. None),
      tlsDial = (\<lambda>a c. None),
      writeLine = (\<lambda>n. None),
      readLine = (\<lambda>n. if n < length replies then Inr (replies ! n) else Inl (IOError ''EOF'')),
      LoadX509KeyPair = (\<lambda>c k. None),
      ReadFile = (\<lambda>f. Inl (IOError ''no such file'')),
      parsesAsPEM = (\<lambda>b. True),
      InterfaceAddrs = Inr [IPNet True (Some ''127.0.0.1''), IPNet False (Some ''192.0.2.1'')],
      Listen = (\<lambda>a. None),
      Accept = (\<lambda>l. case l of TcpListener a \<Rightarrow> Inr (TcpConn a)),
      ReadAll = (\<lambda>c t. (''drwxr-xr-x pub'', None)),
      osCreate = (\<lambda>u. None),
      osOpen = (\<lambda>u. None),
      ioCopy = (\<lambda>d u c t. (0, None))\<rparr>"

definition plainParams :: ftpParameters where
  "plainParams =
     \<lparr>host = ''ftp.example.org'', ctrlPort = 21, user = ''anonymous'', pass = ''guest'',
      secure = False, secureMode = EXPLICIT, cert = [], key = [], rootCA = [],
      alwaysTrust = False, passiveMode = True, listenPort = 51213, keepAlive = False\<rparr>"

definition connected :: "ftpParameters \<Rightarrow> Ftp" where
  "connected p =
     (newFtp p)\<lparr>rawConn := Some (TcpConn ''192.0.2.7:21''),
                ctrlConn := Some (OverRaw (TcpConn ''192.0.2.7:21'')),
                State := ONLINE, nread := 1\<rparr>"

section \<open>Bookkeeping for runs of successful exchanges\<close>

text \<open>The session after the exchanges \<open>cs\<close> have been written and answered: the history
  of the control channel has grown by them and nothing else has changed.\<close>

definition advance :: "Ftp \<Rightarrow> string list \<Rightarrow> Ftp" where
  "advance this cs = this\<lparr>issued := issued this @ cs, nread := nread this + length cs\<rparr>"

section \<open>What an operation leaves alone\<close>

text \<open>Two sessions that differ at most in the history of the control channel.\<close>

definition sameButHistory :: "Ftp \<Rightarrow> Ftp \<Rightarrow> bool" where
  "sameButHistory a b \<longleftrightarrow>
     rawConn b = rawConn a \<and> tlsConn b = tlsConn a \<and> ctrlConn b = ctrlConn a
     \<and> params b = params a \<and> State b = State a"

text \<open>The commands issued on the way from session \<open>a\<close> to session \<open>b\<close> extend the history of
  \<open>a\<close> and none of them is \<^verbatim>\<open>QUIT\<close>.\<close>

definition noQuitSince :: "Ftp \<Rightarrow> Ftp \<Rightarrow> bool" where
  "noQuitSince a b \<longleftrightarrow>
     take (length (issued a)) (issued b) = issued a
     \<and> ''QUIT'' \<notin> set (drop (length (issued a)) (issued b))"

definition quiet :: "Ftp \<Rightarrow> Ftp \<Rightarrow> bool" where
  "quiet a b \<longleftrightarrow> sameButHistory a b \<and> noQuitSince a b"

section \<open>Facts about the number conversions\<close>

lemma of_char_digitChar:
  "d < 16 \<Longrightarrow> (of_char (digitChar d) :: nat) = (if d < 10 then 48 + d else 87 + d)"
  by (simp add: digitChar_def)

lemma digitVal_digitChar: "d < 16 \<Longrightarrow> digitVal (digitChar d) = Some d"
  by (simp add: digitVal_def of_char_digitChar Let_def)

lemma digitChar_not_sign: "d < 16 \<Longrightarrow> digitChar d \<noteq> CHR ''-'' \<and> digitChar d \<noteq> CHR ''+''"
proof -
  assume d: "d < 16"
  have "(of_char (digitChar d) :: nat) \<noteq> 45 \<and> (of_char (digitChar d) :: nat) \<noteq> 43"
    using d by (simp add: of_char_digitChar)
  then show ?thesis by auto
qed

lemma fmtBits16_1: "n < 16 \<Longrightarrow> fmtBits 16 n = [digitChar n]"
  by (simp add: fmtBits.simps)

lemma fmtBits16_step:
  "16 \<le> n \<Longrightarrow> fmtBits 16 n = fmtBits 16 (n div 16) @ [digitChar (n mod 16)]"
  by (subst fmtBits.simps) simp

lemma fmtBits16_2:
  "16 \<le> n \<Longrightarrow> n < 256 \<Longrightarrow> fmtBits 16 n = [digitChar (n div 16), digitChar (n mod 16)]"
  by (simp add: fmtBits16_step fmtBits16_1)

lemma fmtBits16_3:
  "256 \<le> n \<Longrightarrow> n < 4096 \<Longrightarrow>
   fmtBits 16 n = [digitChar (n div 16 div 16), digitChar (n div 16 mod 16), digitChar (n mod 16)]"
proof -
  assume a: "256 \<le> n" "n < 4096"
  have "16 \<le> n" "16 \<le> n div 16" "n div 16 < 256" using a by auto
  then show ?thesis by (simp add: fmtBits16_step[of n] fmtBits16_2)
qed

lemma fmtBits16_4:
  "4096 \<le> n \<Longrightarrow> n < 65536 \<Longrightarrow>
   fmtBits 16 n = [digitChar (n div 16 div 16 div 16), digitChar (n div 16 div 16 mod 16),
                   digitChar (n div 16 mod 16), digitChar (n mod 16)]"
proof -
  assume a: "4096 \<le> n" "n < 65536"
  have "16 \<le> n" "256 \<le> n div 16" "n div 16 < 4096" using a by auto
  then show ?thesis by (simp add: fmtBits16_step[of n] fmtBits16_3)
qed

lemma fmtBits_nonempty: "fmtBits b n \<noteq> []"
  by (subst fmtBits.simps) simp

lemma fmtBits16_snoc:
  "16 \<le> n \<Longrightarrow> length (fmtBits 16 n) = Suc (length (fmtBits 16 (n div 16)))"
  by (simp add: fmtBits16_step)

lemma fmtBits16_long: "65536 \<le> n \<Longrightarrow> 5 \<le> length (fmtBits 16 n)"
proof -
  assume n: "65536 \<le> n"
  have b: "16 \<le> n" "16 \<le> n div 16" "16 \<le> n div 16 div 16" "16 \<le> n div 16 div 16 div 16"
    using n by auto
  have "length (fmtBits 16 n) = 4 + length (fmtBits 16 (n div 16 div 16 div 16 div 16))"
    using b by (simp add: fmtBits16_snoc)
  moreover have "fmtBits 16 (n div 16 div 16 div 16 div 16) \<noteq> []" by (rule fmtBits_nonempty)
  ultimately show ?thesis by (cases "fmtBits 16 (n div 16 div 16 div 16 div 16)") auto
qed

lemma h2i_1: "a < 16 \<Longrightarrow> h2i [digitChar a] = (int a, None)"
  by (simp add: h2i_def ParseInt_def ParseUint_def digitVal_digitChar digitChar_not_sign)

lemma h2i_2:
  "a < 16 \<Longrightarrow> b < 16 \<Longrightarrow> h2i [digitChar a, digitChar b] = (int (a * 16 + b), None)"
  by (simp add: h2i_def ParseInt_def ParseUint_def digitVal_digitChar digitChar_not_sign)

lemma div16_div16: "(n::nat) div 16 div 16 = n div 256"
  by (simp add: div_mult2_eq[symmetric])

lemma low_byte: "(n::nat) div 16 mod 16 * 16 + n mod 16 = n mod 256"
proof -
  have "n mod 256 = n mod (16 * 16)" by simp
  also have "\<dots> = 16 * (n div 16 mod 16) + n mod 16" by (rule mod_mult2_eq)
  finally show ?thesis by simp
qed

lemma high_byte: "(n::nat) div 16 div 16 div 16 * 16 + n div 16 div 16 mod 16 = n div 256"
proof -
  have "n div 16 div 16 div 16 * 16 + n div 16 div 16 mod 16 = n div 16 div 16" by simp
  then show ?thesis by (simp add: div16_div16)
qed

lemma bytes_join: "int (n div 256) * 256 + int (n mod 256) = int n"
  by (simp add: zdiv_int zmod_int)

section \<open>The active-mode port encoding\<close>

lemma getSplitPorts_nat:
  assumes "listenPort (params this) = int n" "n < 65536"
  shows "getSplitPorts this = (int (n div 256), int (n mod 256), None)"
proof -
  have hex: "Sprintf_x (listenPort (params this)) = fmtBits 16 n"
    using assms(1) by (simp add: Sprintf_x_def fmtInteger_def)
  consider "n < 16" | "16 \<le> n" "n < 256" | "256 \<le> n" "n < 4096" | "4096 \<le> n" "n < 65536"
    using assms(2) by linarith
  then show ?thesis
  proof cases
    case 1
    then show ?thesis
      by (simp add: getSplitPorts_def hex fmtBits16_1 h2i_1)
  next
    case 2
    then have d: "n div 16 < 16" "n mod 16 < 16" by auto
    have v: "n div 16 * 16 + n mod 16 = n" by simp
    show ?thesis using 2
      by (simp add: getSplitPorts_def hex fmtBits16_2 h2i_2[OF d] v)
  next
    case 3
    then have d: "n div 16 div 16 < 16" "n div 16 mod 16 < 16" "n mod 16 < 16" by auto
    have "getSplitPorts this =
            (int (n div 16 div 16), int (n div 16 mod 16 * 16 + n mod 16), None)"
      using 3 by (simp add: getSplitPorts_def hex fmtBits16_3 h2i_1[OF d(1)] h2i_2[OF d(2,3)])
    then show ?thesis by (simp only: low_byte div16_div16)
  next
    case 4
    then have d: "n div 16 div 16 div 16 < 16" "n div 16 div 16 mod 16 < 16"
        "n div 16 mod 16 < 16" "n mod 16 < 16" by auto
    have "getSplitPorts this =
            (int (n div 16 div 16 div 16 * 16 + n div 16 div 16 mod 16),
             int (n div 16 mod 16 * 16 + n mod 16), None)"
      using 4 by (simp add: getSplitPorts_def hex fmtBits16_4 h2i_2[OF d(1,2)] h2i_2[OF d(3,4)])
    then show ?thesis by (simp only: low_byte high_byte)
  qed
qed

text \<open>
  C2. For a listen port \<open>p\<close> with \<open>0 \<le> p \<le> 65535\<close>, \<open>getSplitPorts\<close> returns two octets
  \<open>p1\<close>, \<open>p2\<close> and no error, with \<open>p1 * 256 + p2 = p\<close>, and \<open>p1 = 0\<close> when \<open>p < 256\<close>.
\<close>

theorem getSplitPorts_roundtrip:
  assumes "0 \<le> listenPort (params this)" "listenPort (params this) \<le> 65535"
  shows "\<exists>p1 p2. getSplitPorts this = (p1, p2, None)
           \<and> p1 * 256 + p2 = listenPort (params this)
           \<and> 0 \<le> p1 \<and> p1 \<le> 255 \<and> 0 \<le> p2 \<and> p2 \<le> 255
           \<and> (listenPort (params this) < 256 \<longrightarrow> p1 = 0)"
proof -
  define n where "n = nat (listenPort (params this))"
  have n: "listenPort (params this) = int n" "n < 65536"
    using assms by (simp_all add: n_def)
  have g: "getSplitPorts this = (int (n div 256), int (n mod 256), None)"
    by (rule getSplitPorts_nat[OF n])
  have j: "int (n div 256) * 256 + int (n mod 256) = int n" by (rule bytes_join)
  have h: "n div 256 \<le> 255" using n(2) by auto
  have l: "n mod 256 \<le> 255" by (simp add: less_Suc_eq_le[symmetric])
  have z: "n < 256 \<longrightarrow> n div 256 = 0" by simp
  show ?thesis using g n(1) j h l z by auto
qed

theorem getSplitPorts_roundtrip_witness:
  "0 \<le> listenPort (params (connected plainParams))
   \<and> listenPort (params (connected plainParams)) \<le> 65535
   \<and> getSplitPorts (connected plainParams) = (200, 13, None)"
proof -
  have h: "0 \<le> listenPort (params (connected plainParams))"
          "listenPort (params (connected plainParams)) \<le> 65535"
    by (simp_all add: connected_def newFtp_def plainParams_def)
  from getSplitPorts_roundtrip[OF h] obtain p1 p2 where
    g: "getSplitPorts (connected plainParams) = (p1, p2, None)"
       "p1 * 256 + p2 = listenPort (params (connected plainParams))"
       "0 \<le> p1" "p1 \<le> 255" "0 \<le> p2" "p2 \<le> 255"
    by blast
  have "p1 * 256 + p2 = 51213"
    using g(2) by (simp add: connected_def newFtp_def plainParams_def)
  then have "p1 = 200 \<and> p2 = 13" using g(3-6) by presburger
  then show ?thesis using g(1) h by simp
qed

text \<open>
  C3. For a listen port above 65535, \<open>getSplitPorts\<close> returns an error, and so does \<open>port\<close>,
  which then has sent nothing and leaves the session as it was.
\<close>

theorem getSplitPorts_rejects_large:
  assumes "65535 < listenPort (params this)"
  shows "(\<exists>e. getSplitPorts this = (0, 0, Some e))
       \<and> (\<exists>e. port env this = (Returns (Inl (None, e)), this))"
proof -
  define n where "n = nat (listenPort (params this))"
  have n: "listenPort (params this) = int n" "65536 \<le> n"
    using assms by (simp_all add: n_def)
  have hex: "Sprintf_x (listenPort (params this)) = fmtBits 16 n"
    using n(1) by (simp add: Sprintf_x_def fmtInteger_def)
  have len: "5 \<le> length (fmtBits 16 n)" by (rule fmtBits16_long[OF n(2)])
  have g: "\<exists>e. getSplitPorts this = (0, 0, Some e)"
    using len by (simp add: getSplitPorts_def hex)
  then obtain e where e: "getSplitPorts this = (0, 0, Some e)" by blast
  have "\<exists>e'. port env this = (Returns (Inl (None, e')), this)"
    by (cases "getLocalIP env") (auto simp: port_def e split: option.splits)
  with g show ?thesis by blast
qed

theorem getSplitPorts_rejects_large_witness:
  "65535 < listenPort (params (connected (plainParams\<lparr>listenPort := 65536\<rparr>)))
   \<and> (\<exists>e. getSplitPorts (connected (plainParams\<lparr>listenPort := 65536\<rparr>)) = (0, 0, Some e))
   \<and> (\<exists>e. port (scriptedEnv []) (connected (plainParams\<lparr>listenPort := 65536\<rparr>))
            = (Returns (Inl (None, e)), connected (plainParams\<lparr>listenPort := 65536\<rparr>)))"
proof -
  have h: "65535 < listenPort (params (connected (plainParams\<lparr>listenPort := 65536\<rparr>)))"
    by (simp add: connected_def newFtp_def plainParams_def)
  from getSplitPorts_rejects_large[OF h, of "scriptedEnv []"] h show ?thesis by blast
qed

text \<open>
  C10. When \<^verbatim>\<open>strconv.ParseInt(hex, 16, 64)\<close> fails, \<open>h2i\<close> returns \<open>0\<close> with a nil error; and the
  error result of \<open>h2i\<close> is nil on every input, so no caller can see a parse failure in it.
\<close>

theorem h2i_swallows_parse_failure:
  assumes "ParseInt hex 16 = Inl e"
  shows "h2i hex = (0, None) \<and> (\<forall>s. snd (h2i s) = None)"
  using assms by (auto simp: h2i_def split: sum.splits)

theorem h2i_swallows_parse_failure_witness:
  "ParseInt ''xyz'' 16 = Inl ErrSyntax \<and> h2i ''xyz'' = (0, None) \<and> (\<forall>s. snd (h2i s) = None)"
proof -
  have h: "ParseInt ''xyz'' 16 = Inl ErrSyntax"
    by (simp add: ParseInt_def ParseUint_def digitVal_def)
  from h2i_swallows_parse_failure[OF h] h show ?thesis by blast
qed

section \<open>The passive-mode reply\<close>

lemma digitChar_eval:
  "digitChar 0 = CHR ''0''" "digitChar 1 = CHR ''1''" "digitChar 2 = CHR ''2''"
  "digitChar 3 = CHR ''3''" "digitChar 4 = CHR ''4''" "digitChar 5 = CHR ''5''"
  "digitChar 6 = CHR ''6''" "digitChar 7 = CHR ''7''" "digitChar 8 = CHR ''8''"
  "digitChar 9 = CHR ''9''" "digitChar 10 = CHR ''a''" "digitChar 11 = CHR ''b''"
  "digitChar 12 = CHR ''c''" "digitChar 13 = CHR ''d''" "digitChar 14 = CHR ''e''"
  "digitChar 15 = CHR ''f''" "digitChar (Suc 0) = CHR ''1''"
  by code_simp+

lemma submatch_example: "FindAllStringSubmatch_first ''Entering Passive Mode (10,0,0,5,200,13)'' =
   Some [''10,0,0,5,200,13'', ''10'', ''0'', ''0'', ''5'', ''200'', ''13'']"
  by (simp add: matchAt_def digitsThenComma_def isDigit_def eval_nat_numeral Let_def)

lemma submatch_none: "FindAllStringSubmatch_first ''Entering Passive Mode'' = None"
  by (simp add: matchAt_def digitsThenComma_def isDigit_def eval_nat_numeral Let_def)

lemma ds2h_200: "ds2h ''200'' = (''c8'', None)"
  by (simp add: ds2h_def Atoi_def ParseInt_def ParseUint_def digitVal_def
      Sprintf_x_def fmtInteger_def fmtBits16_2 digitChar_eval)

lemma ds2h_13: "ds2h ''13'' = (''d'', None)"
  by (simp add: ds2h_def Atoi_def ParseInt_def ParseUint_def digitVal_def
      Sprintf_x_def fmtInteger_def fmtBits16_1 digitChar_eval)

lemma h2i_c8d: "h2i ''c8d'' = (3213, None)"
  by (simp add: h2i_def ParseInt_def ParseUint_def digitVal_def)

lemma pasv_port_example: "pasv_port ''Entering Passive Mode (10,0,0,5,200,13)'' = Returns (Inr 3213)"
  unfolding pasv_port_def submatch_example by (simp add: ds2h_200 ds2h_13 h2i_c8d)

lemma Sprintf_d_3213: "Sprintf_d 3213 = ''3213''"
  by (simp add: Sprintf_d_def fmtInteger_def fmtBits.simps digitChar_eval)

lemma Command_PASV_example: "Command (scriptedEnv [(220, ''ready''), (227, ''Entering Passive Mode (10,0,0,5,200,13)'')])
               (connected plainParams) ''PASV'' 227 =
   (Returns (Inr \<lparr>command = ''PASV'', code = 227, msg = ''Entering Passive Mode (10,0,0,5,200,13)''\<rparr>),
    (connected plainParams)\<lparr>issued := [''PASV''], nread := 2\<rparr>)"
  by (simp add: Command_def ReadResponse_def scriptedEnv_def connected_def newFtp_def codeMismatch_def)

text \<open>The value \<open>pasv\<close> reads from two octets: the direct byte-pair value when the
  low octet has two hexadecimal digits, and sixteen times the high octet plus the low octet
  otherwise.\<close>

lemma h2i_3:
  "a < 16 \<Longrightarrow> b < 16 \<Longrightarrow> c < 16 \<Longrightarrow>
   h2i [digitChar a, digitChar b, digitChar c] = (int ((a * 16 + b) * 16 + c), None)"
  by (simp add: h2i_def ParseInt_def ParseUint_def digitVal_digitChar digitChar_not_sign)

lemma h2i_4:
  "a < 16 \<Longrightarrow> b < 16 \<Longrightarrow> c < 16 \<Longrightarrow> d < 16 \<Longrightarrow>
   h2i [digitChar a, digitChar b, digitChar c, digitChar d] =
     (int (((a * 16 + b) * 16 + c) * 16 + d), None)"
  by (simp add: h2i_def ParseInt_def ParseUint_def digitVal_digitChar digitChar_not_sign)

lemma joined_hex_value:
  assumes "h < 256" "l < 256"
  shows "h2i (Sprintf_x (int h) @ Sprintf_x (int l)) =
           (int (if l < 16 then h * 16 + l else h * 256 + l), None)"
proof -
  have x: "Sprintf_x (int h) = fmtBits 16 h" "Sprintf_x (int l) = fmtBits 16 l"
    by (simp_all add: Sprintf_x_def fmtInteger_def)
  have dh: "h div 16 < 16" "h mod 16 < 16" and dl: "l div 16 < 16" "l mod 16 < 16"
    using assms by auto
  have vh: "h div 16 * 16 + h mod 16 = h" and vl: "l div 16 * 16 + l mod 16 = l" by simp_all
  show ?thesis
  proof (cases "h < 16")
    case h1: True
    show ?thesis
    proof (cases "l < 16")
      case True
      then show ?thesis using h1 by (simp add: x fmtBits16_1 h2i_2)
    next
      case False
      then have "h2i (Sprintf_x (int h) @ Sprintf_x (int l)) =
                   (int ((h * 16 + l div 16) * 16 + l mod 16), None)"
        using h1 assms dl by (simp add: x fmtBits16_1 fmtBits16_2 h2i_3)
      moreover have "(h * 16 + l div 16) * 16 + l mod 16 = h * 256 + l"
        using vl by (simp add: algebra_simps)
      ultimately show ?thesis using False by simp
    qed
  next
    case h2: False
    show ?thesis
    proof (cases "l < 16")
      case True
      then have "h2i (Sprintf_x (int h) @ Sprintf_x (int l)) =
                   (int ((h div 16 * 16 + h mod 16) * 16 + l), None)"
        using h2 assms dh by (simp add: x fmtBits16_1 fmtBits16_2 h2i_3)
      then show ?thesis using True by (simp only: vh if_True)
    next
      case False
      then have "h2i (Sprintf_x (int h) @ Sprintf_x (int l)) =
                   (int (((h div 16 * 16 + h mod 16) * 16 + l div 16) * 16 + l mod 16), None)"
        using h2 assms dh dl by (simp add: x fmtBits16_2 h2i_4)
      moreover have "((h div 16 * 16 + h mod 16) * 16 + l div 16) * 16 + l mod 16 = h * 256 + l"
        using vl by (simp only: vh) (simp add: algebra_simps)
      ultimately show ?thesis using False by simp
    qed
  qed
qed

text \<open>
  C1. The reply \<^verbatim>\<open>227 Entering Passive Mode (10,0,0,5,200,13)\<close> has the port octets 200 and
  13. \<open>pasv\<close> joins their hexadecimal forms \<^verbatim>\<open>c8\<close> and \<^verbatim>\<open>d\<close> without padding the second to two
  digits and reads \<^verbatim>\<open>c8d\<close>: it computes and dials port 3213, not \<open>200 * 256 + 13 = 51213\<close>.
\<close>

theorem pasv_low_octet_unpadded:
  "pasv_port ''Entering Passive Mode (10,0,0,5,200,13)'' = Returns (Inr 3213)
   \<and> fst (pasv (scriptedEnv [(220, ''ready''), (227, ''Entering Passive Mode (10,0,0,5,200,13)'')])
               (connected plainParams))
      = Returns (Inr (\<lparr>command = ''PASV'', code = 227, msg = ''Entering Passive Mode (10,0,0,5,200,13)''\<rparr>,
                     TcpConn ''192.0.2.7:3213''))"
  unfolding pasv_def Command_PASV_example by (simp add: pasv_port_example Sprintf_d_3213 scriptedEnv_def)

lemma pasv_port_none: "pasv_port ''Entering Passive Mode'' = Panics"
  unfolding pasv_port_def submatch_none by simp

lemma Command_PASV_none: "Command (scriptedEnv [(220, ''ready''), (227, ''Entering Passive Mode'')])
               (connected plainParams) ''PASV'' 227 =
   (Returns (Inr \<lparr>command = ''PASV'', code = 227, msg = ''Entering Passive Mode''\<rparr>),
    (connected plainParams)\<lparr>issued := [''PASV''], nread := 2\<rparr>)"
  by (simp add: Command_def ReadResponse_def scriptedEnv_def connected_def newFtp_def codeMismatch_def)

text \<open>
  C7. On a reply without the six numbers, \<^verbatim>\<open>matches\<close> is empty and \<^verbatim>\<open>matches[0]\<close> panics:
  \<open>pasv\<close> does not return an error to its caller.
\<close>

theorem pasv_no_match_panics:
  "fst (pasv (scriptedEnv [(220, ''ready''), (227, ''Entering Passive Mode'')])
               (connected plainParams)) = Panics"
  unfolding pasv_def Command_PASV_none by (simp add: pasv_port_none scriptedEnv_def)

text \<open>The other failures of \<open>pasv\<close> are returned as errors: an octet that \<^verbatim>\<open>Atoi\<close>
  rejects (a digit string beyond the 64-bit range) and a failed dial.\<close>

lemma pasv_port_octet_errors:
  assumes "FindAllStringSubmatch_first m = Some tmp"
  shows "ds2h (tmp ! 5) = (h1, Some e) \<Longrightarrow> pasv_port m = Returns (Inl e)"
    and "ds2h (tmp ! 5) = (h1, None) \<Longrightarrow> ds2h (tmp ! 6) = (h2, Some e) \<Longrightarrow>
           pasv_port m = Returns (Inl e)"
  using assms by (simp_all add: pasv_port_def)

lemma pasv_returns_octet_error:
  assumes "Command env this ''PASV'' 227 = (Returns (Inr res), t)"
      and "LookupIP env (host (params t)) = Inr ip"
      and "pasv_port (msg res) = Returns (Inl e)"
  shows "pasv env this = (Returns (Inl (Some res, e)), t)"
  using assms by (simp add: pasv_def)

lemma pasv_returns_dial_error:
  assumes "Command env this ''PASV'' 227 = (Returns (Inr res), t)"
      and "LookupIP env (host (params t)) = Inr (ip0 # ips)"
      and "pasv_port (msg res) = Returns (Inr n)"
      and "Dial env (ip0 @ '':'' @ Sprintf_d n) = Some e"
  shows "pasv env this = (Returns (Inl (Some res, e)), t)"
  using assms by (simp add: pasv_def)

lemma pasv_port_octet_out_of_range:
  "pasv_port ''Entering Passive Mode (10,0,0,5,200,99999999999999999999)'' =
     Returns (Inl (NumError ErrRange))"
proof -
  have m: "FindAllStringSubmatch_first ''Entering Passive Mode (10,0,0,5,200,99999999999999999999)''
      = Some [''10,0,0,5,200,99999999999999999999'', ''10'', ''0'', ''0'', ''5'', ''200'',
              ''99999999999999999999'']"
    by (simp add: matchAt_def digitsThenComma_def isDigit_def eval_nat_numeral Let_def)
  have d: "ds2h ''99999999999999999999'' = ([], Some (NumError ErrRange))"
    by (simp add: ds2h_def Atoi_def ParseInt_def ParseUint_def digitVal_def)
  show ?thesis unfolding pasv_port_def m by (simp add: ds2h_200 d)
qed

section \<open>Authentication and option negotiation\<close>

lemmas fixture_defs = scriptedEnv_def connected_def newFtp_def plainParams_def

lemma Command_ok:
  assumes "ctrlConn this = Some c" "transportLive c"
      and "writeLine env (length (issued this)) = None"
      and "readLine env (nread this) = Inr (expect, m)"
      and "\<not> codeMismatch expect expect"
  shows "Command env this cmd expect =
           (Returns (Inr \<lparr>command = cmd, code = expect, msg = m\<rparr>),
            this\<lparr>issued := issued this @ [cmd], nread := Suc (nread this)\<rparr>)"
  using assms by (simp add: Command_def ReadResponse_def)

lemma getTLSConfig_params: "params a = params b \<Longrightarrow> getTLSConfig env a = getTLSConfig env b"
  by (simp add: getTLSConfig_def)

lemma auth_login_ok:
  assumes "ctrlConn this = Some c" "transportLive c"
      and "writeLine env (length (issued this)) = None"
      and "writeLine env (Suc (length (issued this))) = None"
      and "readLine env (nread this) = Inr (331, m1)"
      and "readLine env (Suc (nread this)) = Inr (230, m2)"
  shows "fst (auth_login env this res) =
           Returns (res @ [\<lparr>command = ''USER '' @ user (params this), code = 331, msg = m1\<rparr>,
                           \<lparr>command = ''PASS '' @ pass (params this), code = 230, msg = m2\<rparr>], None)"
proof -
  let ?t1 = "this\<lparr>issued := issued this @ [''USER '' @ user (params this)], nread := Suc (nread this)\<rparr>"
  have c1: "Command env this (''USER '' @ user (params this)) 331 =
      (Returns (Inr \<lparr>command = ''USER '' @ user (params this), code = 331, msg = m1\<rparr>), ?t1)"
    using assms by (intro Command_ok) (simp_all add: codeMismatch_def)
  have c2: "Command env ?t1 (''PASS '' @ pass (params ?t1)) 230 =
      (Returns (Inr \<lparr>command = ''PASS '' @ pass (params ?t1), code = 230, msg = m2\<rparr>),
       ?t1\<lparr>issued := issued ?t1 @ [''PASS '' @ pass (params ?t1)], nread := Suc (nread ?t1)\<rparr>)"
    using assms by (intro Command_ok) (simp_all add: codeMismatch_def)
  show ?thesis unfolding auth_login_def c1 using c2 by simp
qed

lemma getTLSConfig_trust:
  "getTLSConfig env this = Returns (conf, None) \<Longrightarrow> InsecureSkipVerify conf = alwaysTrust (params this)"
  by (auto simp: getTLSConfig_def Let_def split: if_splits option.splits sum.splits)

text \<open>
  C4, amended. On a session whose control connection carries traffic: with security in
  explicit mode, if the TLS configuration is assembled without error, the three writes
  succeed and the server answers 234, 331, 230, then \<open>auth\<close> returns exactly the three
  responses of \<^verbatim>\<open>AUTH TLS\<close>, \<^verbatim>\<open>USER\<close>, \<^verbatim>\<open>PASS\<close>, in this order, and no error; the writes after
  the upgrade go through the upgraded connection, which carries traffic only with the raw
  socket open and the always-trust flag set. Without security or in implicit mode, if the
  two writes succeed and the server answers 331, 230, it returns exactly the two responses
  of \<^verbatim>\<open>USER\<close>, \<^verbatim>\<open>PASS\<close>, and no error.
\<close>

theorem auth_responses:
  assumes live: "ctrlConn this = Some c" "transportLive c"
  shows "(secure (params this) \<and> secureMode (params this) = EXPLICIT \<longrightarrow>
            rawConn this \<noteq> None \<longrightarrow> alwaysTrust (params this) \<longrightarrow>
            getTLSConfig env this = Returns (conf, None) \<longrightarrow>
            (\<forall>i<3. writeLine env (length (issued this) + i) = None) \<longrightarrow>
            readLine env (nread this) = Inr (234, m0) \<longrightarrow>
            readLine env (nread this + 1) = Inr (331, m1) \<longrightarrow>
            readLine env (nread this + 2) = Inr (230, m2) \<longrightarrow>
            fst (auth env this) =
              Returns ([\<lparr>command = ''AUTH TLS'', code = 234, msg = m0\<rparr>,
                        \<lparr>command = ''USER '' @ user (params this), code = 331, msg = m1\<rparr>,
                        \<lparr>command = ''PASS '' @ pass (params this), code = 230, msg = m2\<rparr>], None))
       \<and> (\<not> (secure (params this) \<and> secureMode (params this) = EXPLICIT) \<longrightarrow>
            (\<forall>i<2. writeLine env (length (issued this) + i) = None) \<longrightarrow>
            readLine env (nread this) = Inr (331, m1) \<longrightarrow>
            readLine env (nread this + 1) = Inr (230, m2) \<longrightarrow>
            fst (auth env this) =
              Returns ([\<lparr>command = ''USER '' @ user (params this), code = 331, msg = m1\<rparr>,
                        \<lparr>command = ''PASS '' @ pass (params this), code = 230, msg = m2\<rparr>], None))"
proof (intro conjI impI)
  assume e: "secure (params this) \<and> secureMode (params this) = EXPLICIT"
     and raw: "rawConn this \<noteq> None"
     and trust: "alwaysTrust (params this)"
     and tls: "getTLSConfig env this = Returns (conf, None)"
     and w: "\<forall>i<3. writeLine env (length (issued this) + i) = None"
     and r: "readLine env (nread this) = Inr (234, m0)"
            "readLine env (nread this + 1) = Inr (331, m1)"
            "readLine env (nread this + 2) = Inr (230, m2)"
  have w0: "writeLine env (length (issued this)) = None"
       "writeLine env (Suc (length (issued this))) = None"
       "writeLine env (Suc (Suc (length (issued this)))) = None"
    using w[rule_format, of 0] w[rule_format, of 1] w[rule_format, of 2] by simp_all
  let ?t1 = "this\<lparr>issued := issued this @ [''AUTH TLS''], nread := Suc (nread this)\<rparr>"
  have c1: "Command env this ''AUTH TLS'' 234 =
      (Returns (Inr \<lparr>command = ''AUTH TLS'', code = 234, msg = m0\<rparr>), ?t1)"
    using live w0 r by (intro Command_ok) (simp_all add: codeMismatch_def)
  have "getTLSConfig env ?t1 = Returns (conf, None)"
    using tls getTLSConfig_params[of ?t1 this env] by simp
  then have u: "secureUpgrade env ?t1 =
      (Returns None, ?t1\<lparr>tlsConn := Some (TlsClient (rawConn this) conf),
                           ctrlConn := Some (OverTls (TlsClient (rawConn this) conf))\<rparr>)"
    by (simp add: secureUpgrade_def Let_def)
  let ?t2 = "?t1\<lparr>tlsConn := Some (TlsClient (rawConn this) conf),
                   ctrlConn := Some (OverTls (TlsClient (rawConn this) conf))\<rparr>"
  obtain rc where rc: "rawConn this = Some rc" using raw by blast
  have isv: "InsecureSkipVerify conf" using getTLSConfig_trust[OF tls] trust by simp
  have l: "fst (auth_login env ?t2 [\<lparr>command = ''AUTH TLS'', code = 234, msg = m0\<rparr>]) =
      Returns ([\<lparr>command = ''AUTH TLS'', code = 234, msg = m0\<rparr>] @
               [\<lparr>command = ''USER '' @ user (params ?t2), code = 331, msg = m1\<rparr>,
                \<lparr>command = ''PASS '' @ pass (params ?t2), code = 230, msg = m2\<rparr>], None)"
    using w0 r rc isv
    by (intro auth_login_ok[where c = "OverTls (TlsClient (rawConn this) conf)"]) simp_all
  show "fst (auth env this) =
      Returns ([\<lparr>command = ''AUTH TLS'', code = 234, msg = m0\<rparr>,
                \<lparr>command = ''USER '' @ user (params this), code = 331, msg = m1\<rparr>,
                \<lparr>command = ''PASS '' @ pass (params this), code = 230, msg = m2\<rparr>], None)"
    using e l unfolding auth_def c1 by (simp add: u)
next
  assume e: "\<not> (secure (params this) \<and> secureMode (params this) = EXPLICIT)"
     and w: "\<forall>i<2. writeLine env (length (issued this) + i) = None"
     and r: "readLine env (nread this) = Inr (331, m1)"
            "readLine env (nread this + 1) = Inr (230, m2)"
  have w0: "writeLine env (length (issued this)) = None"
       "writeLine env (Suc (length (issued this))) = None"
    using w[rule_format, of 0] w[rule_format, of 1] by simp_all
  have "fst (auth_login env this []) =
      Returns ([] @ [\<lparr>command = ''USER '' @ user (params this), code = 331, msg = m1\<rparr>,
                     \<lparr>command = ''PASS '' @ pass (params this), code = 230, msg = m2\<rparr>], None)"
    using live w0 r by (intro auth_login_ok) simp_all
  then show "fst (auth env this) =
      Returns ([\<lparr>command = ''USER '' @ user (params this), code = 331, msg = m1\<rparr>,
                \<lparr>command = ''PASS '' @ pass (params this), code = 230, msg = m2\<rparr>], None)"
    using e by (auto simp: auth_def)
qed

lemma getTLSConfig_trusting:
  "getTLSConfig env (connected (plainParams\<lparr>secure := True, alwaysTrust := True\<rparr>)) =
     Returns (\<lparr>ClientAuth = VerifyClientCertIfGiven,
               CipherSuites =
                 [TLS_RSA_WITH_AES_128_CBC_SHA, TLS_RSA_WITH_AES_256_CBC_SHA,
                  TLS_ECDHE_ECDSA_WITH_AES_128_CBC_SHA, TLS_ECDHE_ECDSA_WITH_AES_256_CBC_SHA,
                  TLS_ECDHE_RSA_WITH_AES_128_CBC_SHA, TLS_ECDHE_RSA_WITH_AES_256_CBC_SHA,
                  TLS_ECDHE_RSA_WITH_AES_128_GCM_SHA256,
                  TLS_ECDHE_ECDSA_WITH_AES_128_GCM_SHA256],
               Certificates = [], RootCAs = None, ClientCAs = None,
               InsecureSkipVerify = True\<rparr>, None)"
  by (simp add: getTLSConfig_def fixture_defs)

theorem auth_responses_witness:
  "fst (auth (scriptedEnv [(220, ''ready''), (234, ''TLS''), (331, ''Password''), (230, ''Welcome'')])
            (connected (plainParams\<lparr>secure := True, alwaysTrust := True\<rparr>))) =
     Returns ([\<lparr>command = ''AUTH TLS'', code = 234, msg = ''TLS''\<rparr>,
               \<lparr>command = ''USER anonymous'', code = 331, msg = ''Password''\<rparr>,
               \<lparr>command = ''PASS guest'', code = 230, msg = ''Welcome''\<rparr>], None)
   \<and> fst (auth (scriptedEnv [(220, ''ready''), (331, ''Password''), (230, ''Welcome'')])
            (connected plainParams)) =
     Returns ([\<lparr>command = ''USER anonymous'', code = 331, msg = ''Password''\<rparr>,
               \<lparr>command = ''PASS guest'', code = 230, msg = ''Welcome''\<rparr>], None)"
proof -
  let ?E1 = "scriptedEnv [(220, ''ready''), (234, ''TLS''), (331, ''Password''), (230, ''Welcome'')]"
  let ?S1 = "connected (plainParams\<lparr>secure := True, alwaysTrust := True\<rparr>)"
  let ?E2 = "scriptedEnv [(220, ''ready''), (331, ''Password''), (230, ''Welcome'')]"
  let ?S2 = "connected plainParams"
  have l1: "ctrlConn ?S1 = Some (OverRaw (TcpConn ''192.0.2.7:21''))"
           "transportLive (OverRaw (TcpConn ''192.0.2.7:21''))"
    by (simp_all add: fixture_defs)
  have l2: "ctrlConn ?S2 = Some (OverRaw (TcpConn ''192.0.2.7:21''))"
           "transportLive (OverRaw (TcpConn ''192.0.2.7:21''))"
    by (simp_all add: fixture_defs)
  have h1: "secure (params ?S1) \<and> secureMode (params ?S1) = EXPLICIT"
           "rawConn ?S1 \<noteq> None" "alwaysTrust (params ?S1)"
           "\<forall>i<3. writeLine ?E1 (length (issued ?S1) + i) = None"
           "readLine ?E1 (nread ?S1) = Inr (234, ''TLS'')"
           "readLine ?E1 (nread ?S1 + 1) = Inr (331, ''Password'')"
           "readLine ?E1 (nread ?S1 + 2) = Inr (230, ''Welcome'')"
    by (simp_all add: fixture_defs)
  have h2: "\<not> (secure (params ?S2) \<and> secureMode (params ?S2) = EXPLICIT)"
           "\<forall>i<2. writeLine ?E2 (length (issued ?S2) + i) = None"
           "readLine ?E2 (nread ?S2) = Inr (331, ''Password'')"
           "readLine ?E2 (nread ?S2 + 1) = Inr (230, ''Welcome'')"
    by (simp_all add: fixture_defs)
  have u1: "user (params ?S1) = ''anonymous''" "pass (params ?S1) = ''guest''"
       and u2: "user (params ?S2) = ''anonymous''" "pass (params ?S2) = ''guest''"
    by (simp_all add: fixture_defs)
  have a: "fst (auth ?E1 ?S1) =
     Returns ([\<lparr>command = ''AUTH TLS'', code = 234, msg = ''TLS''\<rparr>,
               \<lparr>command = ''USER anonymous'', code = 331, msg = ''Password''\<rparr>,
               \<lparr>command = ''PASS guest'', code = 230, msg = ''Welcome''\<rparr>], None)"
    using auth_responses[OF l1, THEN conjunct1, THEN mp, OF h1(1), THEN mp, OF h1(2),
        THEN mp, OF h1(3), THEN mp, OF getTLSConfig_trusting, THEN mp, OF h1(4),
        THEN mp, OF h1(5), THEN mp, OF h1(6), THEN mp, OF h1(7)]
    by (simp add: u1)
  have b: "fst (auth ?E2 ?S2) =
     Returns ([\<lparr>command = ''USER anonymous'', code = 331, msg = ''Password''\<rparr>,
               \<lparr>command = ''PASS guest'', code = 230, msg = ''Welcome''\<rparr>], None)"
    using auth_responses[OF l2, THEN conjunct2, THEN mp, OF h2(1), THEN mp, OF h2(2),
        THEN mp, OF h2(3), THEN mp, OF h2(4)]
    by (simp add: u2)
  from a b show ?thesis by blast
qed

text \<open>
  C4 as stated fails: in explicit mode the only command issued, \<^verbatim>\<open>AUTH TLS\<close>, is answered
  with 234, the key pair cannot be loaded, and \<open>auth\<close> returns one response with the error.
\<close>

theorem auth_upgrade_failure_counterexample:
  "secure (params (connected (plainParams\<lparr>secure := True, cert := ''client.pem'', key := ''client.key''\<rparr>)))
   \<and> secureMode (params (connected (plainParams\<lparr>secure := True, cert := ''client.pem'', key := ''client.key''\<rparr>))) = EXPLICIT
   \<and> auth ((scriptedEnv [(220, ''ready''), (234, ''TLS'')])
              \<lparr>LoadX509KeyPair := (\<lambda>c k. Some (IOError ''open client.pem: no such file''))\<rparr>)
           (connected (plainParams\<lparr>secure := True, cert := ''client.pem'', key := ''client.key''\<rparr>))
     = (Returns ([\<lparr>command = ''AUTH TLS'', code = 234, msg = ''TLS''\<rparr>],
                 Some (IOError ''open client.pem: no such file'')),
        (connected (plainParams\<lparr>secure := True, cert := ''client.pem'', key := ''client.key''\<rparr>))
          \<lparr>issued := [''AUTH TLS''], nread := 2\<rparr>)"
  by (simp add: auth_def Command_def ReadResponse_def secureUpgrade_def getTLSConfig_def
      codeMismatch_def fixture_defs)

text \<open>In explicit mode without the always-trust flag \<open>auth\<close> never returns without error:
  the handshake of the upgraded connection is refused at the write of \<^verbatim>\<open>USER\<close>.\<close>

lemma auth_explicit_needs_trust:
  assumes "secure (params this) \<and> secureMode (params this) = EXPLICIT"
      and "\<not> alwaysTrust (params this)"
  shows "\<nexists>res t. auth env this = (Returns (res, None), t)"
proof
  assume "\<exists>res t. auth env this = (Returns (res, None), t)"
  then obtain res t where a: "auth env this = (Returns (res, None), t)" by blast
  obtain o1 t1 where c: "Command env this ''AUTH TLS'' 234 = (o1, t1)"
    by (cases "Command env this ''AUTH TLS'' 234")
  have p1: "params t1 = params this" using c
    by (auto simp: Command_def ReadResponse_def Let_def
        split: option.splits if_splits prod.splits outcome.splits sum.splits)
  obtain o2 t2 where u: "secureUpgrade env t1 = (o2, t2)" by (cases "secureUpgrade env t1")
  show False
  proof (cases "\<exists>r. o1 = Returns (Inr r) \<and> o2 = Returns None")
    case False
    then show False using a c u assms(1)
      by (auto simp: auth_def split: outcome.splits sum.splits option.splits)
  next
    case True
    then obtain r where o: "o1 = Returns (Inr r)" "o2 = Returns None" by blast
    obtain conf where g: "getTLSConfig env t1 = Returns (conf, None)"
        and t2: "t2 = t1\<lparr>tlsConn := Some (TlsClient (rawConn t1) conf),
                         ctrlConn := Some (OverTls (TlsClient (rawConn t1) conf))\<rparr>"
      using u o(2)
      by (auto simp: secureUpgrade_def Let_def split: outcome.splits prod.splits option.splits)
    have "\<not> InsecureSkipVerify conf" using getTLSConfig_trust[OF g] p1 assms(2) by simp
    then have "\<exists>e. Command env t2 (''USER '' @ user (params t2)) 331 =
                     (Returns (Inl e), t2\<lparr>issued := issued t2 @ [''USER '' @ user (params t2)]\<rparr>)"
      by (cases "rawConn t1") (simp_all add: Command_def t2)
    then have "\<exists>e t'. auth_login env t2 [r] = (Returns ([r], Some e), t')"
      by (auto simp: auth_login_def)
    then show False using a c u o assms(1) by (auto simp: auth_def)
  qed
qed

lemma advance_nil: "advance this [] = this"
  by (simp add: advance_def)

lemma advance_fields [simp]:
  "params (advance this cs) = params this"
  "ctrlConn (advance this cs) = ctrlConn this"
  "rawConn (advance this cs) = rawConn this"
  "tlsConn (advance this cs) = tlsConn this"
  "State (advance this cs) = State this"
  "issued (advance this cs) = issued this @ cs"
  "nread (advance this cs) = nread this + length cs"
  by (simp_all add: advance_def)

lemma Command_advance:
  assumes "ctrlConn this = Some c" "transportLive c"
      and "length cs = k"
      and "writeLine env (length (issued this) + k) = None"
      and "readLine env (nread this + k) = Inr (expect, m)"
      and "\<not> codeMismatch expect expect"
      and "cs' = cs @ [cmd]"
  shows "Command env (advance this cs) cmd expect =
           (Returns (Inr \<lparr>command = cmd, code = expect, msg = m\<rparr>), advance this cs')"
  using assms by (auto simp: Command_def ReadResponse_def advance_def)

text \<open>
  C5. On a session with a live control connection, when every write succeeds and the server
  answers each command with its expected code, \<open>options\<close> returns without error, the
  commands issued are \<^verbatim>\<open>SYST\<close>, \<^verbatim>\<open>FEAT\<close>, \<^verbatim>\<open>OPTS UTF8 ON\<close>, then \<^verbatim>\<open>PROT P\<close> if and only if
  security is enabled, then \<^verbatim>\<open>TYPE I\<close> as the last one, and the responses come in that order.
\<close>

theorem options_sequence:
  assumes live: "ctrlConn this = Some c" "transportLive c"
      and w: "\<forall>i < (if secure (params this) then 5 else 4).
                writeLine env (length (issued this) + i) = None"
      and r: "readLine env (nread this) = Inr (215, m0)"
             "readLine env (nread this + 1) = Inr (211, m1)"
             "readLine env (nread this + 2) = Inr (200, m2)"
             "readLine env (nread this + 3) = Inr (200, m3)"
      and r4: "secure (params this) \<longrightarrow> readLine env (nread this + 4) = Inr (200, m4)"
  shows "\<exists>res this'. options env this = (Returns (res, None), this')
           \<and> map command res =
               [''SYST'', ''FEAT'', ''OPTS UTF8 ON'']
               @ (if secure (params this) then [''PROT P''] else []) @ [''TYPE I'']
           \<and> issued this' = issued this @ map command res
           \<and> last (issued this') = ''TYPE I''
           \<and> (''PROT P'' \<in> set (map command res) \<longleftrightarrow> secure (params this))"
proof -
  have w0: "writeLine env (length (issued this) + 0) = None"
           "writeLine env (length (issued this) + 1) = None"
           "writeLine env (length (issued this) + 2) = None"
           "writeLine env (length (issued this) + 3) = None"
    using w[rule_format, of 0] w[rule_format, of 1] w[rule_format, of 2] w[rule_format, of 3]
    by (simp_all split: if_splits)
  have r0: "readLine env (nread this + 0) = Inr (215, m0)" using r(1) by simp
  have c1: "Command env (advance this []) ''SYST'' 215 =
      (Returns (Inr \<lparr>command = ''SYST'', code = 215, msg = m0\<rparr>), advance this [''SYST''])"
      by (rule Command_advance[OF live _ w0(1) r0]) (simp_all add: codeMismatch_def)
  have c2: "Command env (advance this [''SYST'']) ''FEAT'' 211 =
      (Returns (Inr \<lparr>command = ''FEAT'', code = 211, msg = m1\<rparr>),
       advance this [''SYST'', ''FEAT''])"
      by (rule Command_advance[OF live _ w0(2) r(2)]) (simp_all add: codeMismatch_def)
  have c3: "Command env (advance this [''SYST'', ''FEAT'']) ''OPTS UTF8 ON'' 200 =
      (Returns (Inr \<lparr>command = ''OPTS UTF8 ON'', code = 200, msg = m2\<rparr>),
       advance this [''SYST'', ''FEAT'', ''OPTS UTF8 ON''])"
      by (rule Command_advance[OF live _ w0(3) r(3)]) (simp_all add: codeMismatch_def)
  show ?thesis
  proof (cases "secure (params this)")
    case False
    have c4: "Command env (advance this [''SYST'', ''FEAT'', ''OPTS UTF8 ON'']) ''TYPE I'' 200 =
      (Returns (Inr \<lparr>command = ''TYPE I'', code = 200, msg = m3\<rparr>),
       advance this [''SYST'', ''FEAT'', ''OPTS UTF8 ON'', ''TYPE I''])"
      by (rule Command_advance[OF live _ w0(4) r(4)]) (simp_all add: codeMismatch_def)
    have "options env (advance this []) =
        (Returns ([\<lparr>command = ''SYST'', code = 215, msg = m0\<rparr>,
                   \<lparr>command = ''FEAT'', code = 211, msg = m1\<rparr>,
                   \<lparr>command = ''OPTS UTF8 ON'', code = 200, msg = m2\<rparr>,
                   \<lparr>command = ''TYPE I'', code = 200, msg = m3\<rparr>], None),
         advance this [''SYST'', ''FEAT'', ''OPTS UTF8 ON'', ''TYPE I''])"
      unfolding options_def c1 using False by (simp add: c2 c3 c4 options_type_def)
    then show ?thesis using False by (simp add: advance_nil)
  next
    case True
    have w4: "writeLine env (length (issued this) + 4) = None"
      using w[rule_format, of 4] True by simp
    have r4': "readLine env (nread this + 4) = Inr (200, m4)" using r4 True by simp
    have c4: "Command env (advance this [''SYST'', ''FEAT'', ''OPTS UTF8 ON'']) ''PROT P'' 200 =
      (Returns (Inr \<lparr>command = ''PROT P'', code = 200, msg = m3\<rparr>),
       advance this [''SYST'', ''FEAT'', ''OPTS UTF8 ON'', ''PROT P''])"
      by (rule Command_advance[OF live _ w0(4) r(4)]) (simp_all add: codeMismatch_def)
    have c5: "Command env (advance this [''SYST'', ''FEAT'', ''OPTS UTF8 ON'', ''PROT P''])
                ''TYPE I'' 200 =
      (Returns (Inr \<lparr>command = ''TYPE I'', code = 200, msg = m4\<rparr>),
       advance this [''SYST'', ''FEAT'', ''OPTS UTF8 ON'', ''PROT P'', ''TYPE I''])"
      by (rule Command_advance[OF live _ w4 r4']) (simp_all add: codeMismatch_def)
    have "options env (advance this []) =
        (Returns ([\<lparr>command = ''SYST'', code = 215, msg = m0\<rparr>,
                   \<lparr>command = ''FEAT'', code = 211, msg = m1\<rparr>,
                   \<lparr>command = ''OPTS UTF8 ON'', code = 200, msg = m2\<rparr>,
                   \<lparr>command = ''PROT P'', code = 200, msg = m3\<rparr>,
                   \<lparr>command = ''TYPE I'', code = 200, msg = m4\<rparr>], None),
         advance this [''SYST'', ''FEAT'', ''OPTS UTF8 ON'', ''PROT P'', ''TYPE I''])"
      unfolding options_def c1 using True by (simp add: c2 c3 c4 c5 options_type_def)
    then show ?thesis using True by (simp add: advance_nil)
  qed
qed

theorem options_sequence_witness:
  "(\<exists>res this'. options (scriptedEnv [(220, ''ready''), (215, ''UNIX''), (211, ''End''),
                       (200, ''UTF8 on''), (200, ''PROT ok''), (200, ''Binary'')])
                     (connected (plainParams\<lparr>secure := True\<rparr>)) = (Returns (res, None), this')
      \<and> map command res = [''SYST'', ''FEAT'', ''OPTS UTF8 ON'', ''PROT P'', ''TYPE I''])
   \<and> (\<exists>res this'. options (scriptedEnv [(220, ''ready''), (215, ''UNIX''), (211, ''End''),
                       (200, ''UTF8 on''), (200, ''Binary'')])
                     (connected plainParams) = (Returns (res, None), this')
      \<and> map command res = [''SYST'', ''FEAT'', ''OPTS UTF8 ON'', ''TYPE I''])"
proof -
  let ?E1 = "scriptedEnv [(220, ''ready''), (215, ''UNIX''), (211, ''End''),
                       (200, ''UTF8 on''), (200, ''PROT ok''), (200, ''Binary'')]"
  let ?S1 = "connected (plainParams\<lparr>secure := True\<rparr>)"
  let ?E2 = "scriptedEnv [(220, ''ready''), (215, ''UNIX''), (211, ''End''),
                       (200, ''UTF8 on''), (200, ''Binary'')]"
  let ?S2 = "connected plainParams"
  have s1: "secure (params ?S1)" and s2: "\<not> secure (params ?S2)"
    by (simp_all add: fixture_defs)
  have h1: "ctrlConn ?S1 = Some (OverRaw (TcpConn ''192.0.2.7:21''))"
      "transportLive (OverRaw (TcpConn ''192.0.2.7:21''))"
      "\<forall>i < (if secure (params ?S1) then 5 else 4). writeLine ?E1 (length (issued ?S1) + i) = None"
      "readLine ?E1 (nread ?S1) = Inr (215, ''UNIX'')"
      "readLine ?E1 (nread ?S1 + 1) = Inr (211, ''End'')"
      "readLine ?E1 (nread ?S1 + 2) = Inr (200, ''UTF8 on'')"
      "readLine ?E1 (nread ?S1 + 3) = Inr (200, ''PROT ok'')"
      "secure (params ?S1) \<longrightarrow> readLine ?E1 (nread ?S1 + 4) = Inr (200, ''Binary'')"
    by (simp_all add: fixture_defs)
  have h2: "ctrlConn ?S2 = Some (OverRaw (TcpConn ''192.0.2.7:21''))"
      "transportLive (OverRaw (TcpConn ''192.0.2.7:21''))"
      "\<forall>i < (if secure (params ?S2) then 5 else 4). writeLine ?E2 (length (issued ?S2) + i) = None"
      "readLine ?E2 (nread ?S2) = Inr (215, ''UNIX'')"
      "readLine ?E2 (nread ?S2 + 1) = Inr (211, ''End'')"
      "readLine ?E2 (nread ?S2 + 2) = Inr (200, ''UTF8 on'')"
      "readLine ?E2 (nread ?S2 + 3) = Inr (200, ''Binary'')"
      "secure (params ?S2) \<longrightarrow> readLine ?E2 (nread ?S2 + 4) = Inr (200, ''Binary'')"
    by (simp_all add: fixture_defs)
  have a: "\<exists>res this'. options ?E1 ?S1 = (Returns (res, None), this')
      \<and> map command res = [''SYST'', ''FEAT'', ''OPTS UTF8 ON'', ''PROT P'', ''TYPE I'']"
    using options_sequence[OF h1] s1 by auto
  have b: "\<exists>res this'. options ?E2 ?S2 = (Returns (res, None), this')
      \<and> map command res = [''SYST'', ''FEAT'', ''OPTS UTF8 ON'', ''TYPE I'']"
    using options_sequence[OF h2] s2 by auto
  from a b show ?thesis by blast
qed

section \<open>TLS configuration\<close>

text \<open>Certificate and pools are set only with both certificate and key configured; with
  an empty root-CA parameter no file is read and \<open>RootCAs\<close> stays nil; and the file system
  matters only through the fixed path.\<close>

lemma getTLSConfig_needs_cert_and_key:
  assumes "getTLSConfig env this = Returns (conf, err)"
      and "Certificates conf \<noteq> [] \<or> RootCAs conf \<noteq> None \<or> ClientCAs conf \<noteq> None"
  shows "cert (params this) \<noteq> [] \<and> key (params this) \<noteq> []"
  using assms
  by (auto simp: getTLSConfig_def Let_def split: if_splits option.splits sum.splits)

lemma getTLSConfig_no_root:
  assumes "rootCA (params this) = []"
  shows "getTLSConfig (env\<lparr>ReadFile := f\<rparr>) this = getTLSConfig env this"
    and "getTLSConfig env this = Returns (conf, err) \<Longrightarrow> RootCAs conf = None"
  using assms
  by (auto simp: getTLSConfig_def Let_def split: if_splits option.splits sum.splits)

lemma getTLSConfig_reads_fixed_path:
  "getTLSConfig (env\<lparr>ReadFile := f\<rparr>) this
     = getTLSConfig (env\<lparr>ReadFile := (\<lambda>path. f ''./cert/rcaPem.pem'')\<rparr>) this"
  by (auto simp: getTLSConfig_def Let_def split: option.splits sum.splits)

text \<open>
  C9. With certificate, key and root-CA path configured, and a file system that holds the
  configured root-CA file and nothing else, \<open>getTLSConfig\<close> fails: it reads the root
  material from the fixed path \<^verbatim>\<open>./cert/rcaPem.pem\<close>, not from the configured path.
\<close>

theorem getTLSConfig_root_path_fixed:
  "getTLSConfig
     ((scriptedEnv [])
        \<lparr>ReadFile := (\<lambda>f. if f = ''/etc/ssl/rootCA.pem'' then Inr ''-----BEGIN CERTIFICATE-----''
                           else Inl (IOError (''open '' @ f @ '': no such file'')))\<rparr>)
     (connected (plainParams\<lparr>secure := True, cert := ''client.pem'', key := ''client.key'',
                             rootCA := ''/etc/ssl/rootCA.pem''\<rparr>))
   = Returns (\<lparr>ClientAuth = VerifyClientCertIfGiven,
               CipherSuites =
                 [TLS_RSA_WITH_AES_128_CBC_SHA, TLS_RSA_WITH_AES_256_CBC_SHA,
                  TLS_ECDHE_ECDSA_WITH_AES_128_CBC_SHA, TLS_ECDHE_ECDSA_WITH_AES_256_CBC_SHA,
                  TLS_ECDHE_RSA_WITH_AES_128_CBC_SHA, TLS_ECDHE_RSA_WITH_AES_256_CBC_SHA,
                  TLS_ECDHE_RSA_WITH_AES_128_GCM_SHA256,
                  TLS_ECDHE_ECDSA_WITH_AES_128_GCM_SHA256],
               Certificates = [], RootCAs = None, ClientCAs = None,
               InsecureSkipVerify = False\<rparr>,
              Some (IOError ''open ./cert/rcaPem.pem: no such file''))"
  by (simp add: getTLSConfig_def fixture_defs)

section \<open>Frames: what the operations change\<close>

lemma sameButHistory_refl [simp]: "sameButHistory a a"
  by (simp add: sameButHistory_def)

lemma sameButHistory_trans: "sameButHistory a b \<Longrightarrow> sameButHistory b c \<Longrightarrow> sameButHistory a c"
  by (simp add: sameButHistory_def)

lemma noQuitSince_refl [simp]: "noQuitSince a a"
  by (simp add: noQuitSince_def)

lemma noQuitSince_iff:
  "noQuitSince a b \<longleftrightarrow> (\<exists>cs. issued b = issued a @ cs \<and> ''QUIT'' \<notin> set cs)"
proof
  assume "noQuitSince a b"
  then have "issued b = issued a @ drop (length (issued a)) (issued b)"
        and "''QUIT'' \<notin> set (drop (length (issued a)) (issued b))"
    by (simp_all add: noQuitSince_def) (metis append_take_drop_id)
  then show "\<exists>cs. issued b = issued a @ cs \<and> ''QUIT'' \<notin> set cs" by blast
next
  assume "\<exists>cs. issued b = issued a @ cs \<and> ''QUIT'' \<notin> set cs"
  then show "noQuitSince a b" by (auto simp: noQuitSince_def)
qed

lemma noQuitSince_trans: "noQuitSince a b \<Longrightarrow> noQuitSince b c \<Longrightarrow> noQuitSince a c"
  by (auto simp: noQuitSince_iff)

lemma ReadResponse_frame:
  "ReadResponse env a x = (out, b) \<Longrightarrow> sameButHistory a b \<and> issued b = issued a"
  by (auto simp: ReadResponse_def sameButHistory_def Let_def split: option.splits if_splits sum.splits)

lemma Command_frame:
  "Command env a cmd x = (out, b) \<Longrightarrow>
     sameButHistory a b \<and> (issued b = issued a \<or> issued b = issued a @ [cmd])"
  by (auto simp: Command_def Let_def sameButHistory_def
      split: option.splits if_splits prod.splits outcome.splits dest: ReadResponse_frame)

lemma Command_quiet:
  "Command env a cmd x = (out, b) \<Longrightarrow> cmd \<noteq> ''QUIT'' \<Longrightarrow> sameButHistory a b \<and> noQuitSince a b"
  using Command_frame[of env a cmd x out b] by (auto simp: noQuitSince_iff)

lemma ReadResponse_quiet:
  "ReadResponse env a x = (out, b) \<Longrightarrow> sameButHistory a b \<and> noQuitSince a b"
  using ReadResponse_frame[of env a x out b] by (auto simp: noQuitSince_iff)

lemma Command_result:
  "Command env a cmd x = (Returns (Inr r), b) \<Longrightarrow>
     command r = cmd \<and> \<not> codeMismatch x (code r) \<and> issued b = issued a @ [cmd]"
  by (auto simp: Command_def ReadResponse_def Let_def
      split: option.splits if_splits prod.splits outcome.splits sum.splits)

lemma quiet_refl [simp]: "quiet a a"
  by (simp add: quiet_def)

lemma quiet_trans: "quiet a b \<Longrightarrow> quiet b c \<Longrightarrow> quiet a c"
  unfolding quiet_def using sameButHistory_trans noQuitSince_trans by blast

lemma Command_q: "Command env a cmd x = (out, b) \<Longrightarrow> cmd \<noteq> ''QUIT'' \<Longrightarrow> quiet a b"
  unfolding quiet_def by (rule Command_quiet)

lemma ReadResponse_q: "ReadResponse env a x = (out, b) \<Longrightarrow> quiet a b"
  unfolding quiet_def by (rule ReadResponse_quiet)

lemma pasv_q: "pasv env a = (out, b) \<Longrightarrow> quiet a b"
proof -
  assume p: "pasv env a = (out, b)"
  obtain o1 t1 where c: "Command env a ''PASV'' 227 = (o1, t1)" by (cases "Command env a ''PASV'' 227")
  have q: "quiet a t1" by (rule Command_q[OF c]) simp
  have "b = t1" using p unfolding pasv_def c
    by (auto simp: Let_def split: outcome.splits sum.splits option.splits list.splits)
  then show ?thesis using q by simp
qed

lemma port_q: "port env a = (out, b) \<Longrightarrow> quiet a b"
proof -
  assume p: "port env a = (out, b)"
  show ?thesis
  proof (cases "getLocalIP env")
    case (Pair localIP le)
    show ?thesis
    proof (cases le)
      case (Some e)
      then show ?thesis using p Pair by (simp add: port_def)
    next
      case None
      obtain p1 p2 se where g: "getSplitPorts a = (p1, p2, se)" by (cases "getSplitPorts a") auto
      show ?thesis
      proof (cases se)
        case (Some e)
        then show ?thesis using p Pair None g by (simp add: port_def)
      next
        case N2: None
        let ?cmd = "''PORT '' @ map (\<lambda>c. if c = CHR ''.'' then CHR '','' else c) localIP @ '','' @ Sprintf_d p1 @ '','' @ Sprintf_d p2"
        obtain o1 t1 where c: "Command env a ?cmd 200 = (o1, t1)" by (cases "Command env a ?cmd 200")
        have q: "quiet a t1" by (rule Command_q[OF c]) simp
        have "b = t1" using p Pair None g N2 c
          by (auto simp: port_def Let_def split: outcome.splits sum.splits option.splits)
        then show ?thesis using q by simp
      qed
    qed
  qed
qed

lemma negotiate_q: "negotiate env a = (out, b) \<Longrightarrow> quiet a b"
  by (auto simp: negotiate_def split: if_splits prod.splits outcome.splits sum.splits
      dest: pasv_q port_q)

lemma readBytes_q: "readBytes env a i = (out, b) \<Longrightarrow> quiet a b"
  by (auto simp: readBytes_def Let_def
      split: if_splits prod.splits outcome.splits sum.splits option.splits itf.splits
      dest: ReadResponse_q)

lemma fileTransfer_q: "fileTransfer env a d u i = (out, b) \<Longrightarrow> quiet a b"
  by (auto simp: fileTransfer_def Let_def
      split: if_splits prod.splits outcome.splits sum.splits option.splits itf.splits direction.splits
      dest: ReadResponse_q)

lemma list_body_q: "list_body env a p = (out, b) \<Longrightarrow> quiet a b"
proof -
  assume l: "list_body env a p = (out, b)"
  obtain o1 t1 where n: "negotiate env a = (o1, t1)" by (cases "negotiate env a")
  have q1: "quiet a t1" by (rule negotiate_q[OF n])
  obtain o2 t2 where c: "Command env t1 (''LIST -aL '' @ p) 150 = (o2, t2)"
    by (cases "Command env t1 (''LIST -aL '' @ p) 150")
  have q2: "quiet a t2" by (rule quiet_trans[OF q1 Command_q[OF c]]) simp
  show ?thesis
  proof (cases "\<exists>r1 i r2. o1 = Returns (Inr (r1, i)) \<and> o2 = Returns (Inr r2)")
    case True
    then obtain r1 i r2 where o: "o1 = Returns (Inr (r1, i))" "o2 = Returns (Inr r2)" by blast
    obtain o3 t3 where r: "readBytes env t2 i = (o3, t3)" by (cases "readBytes env t2 i")
    have q3: "quiet a t3" by (rule quiet_trans[OF q2 readBytes_q[OF r]])
    have "b = t3" using l n c o r
      by (auto simp: list_body_def Let_def split: outcome.splits sum.splits)
    then show ?thesis using q3 by simp
  next
    case False
    then have "b = t1 \<or> b = t2" using l n c
      by (auto simp: list_body_def Let_def split: outcome.splits sum.splits)
    then show ?thesis using q1 q2 by auto
  qed
qed

lemma transfer_body_q: "transfer_body env a d cmd local = (out, b) \<Longrightarrow> cmd \<noteq> ''QUIT'' \<Longrightarrow> quiet a b"
proof -
  assume l: "transfer_body env a d cmd local = (out, b)" and nq: "cmd \<noteq> ''QUIT''"
  obtain o1 t1 where n: "negotiate env a = (o1, t1)" by (cases "negotiate env a")
  have q1: "quiet a t1" by (rule negotiate_q[OF n])
  obtain o2 t2 where c: "Command env t1 cmd 150 = (o2, t2)"
    by (cases "Command env t1 cmd 150")
  have q2: "quiet a t2" by (rule quiet_trans[OF q1 Command_q[OF c nq]])
  show ?thesis
  proof (cases "\<exists>r1 i r2. o1 = Returns (Inr (r1, i)) \<and> o2 = Returns (Inr r2)")
    case True
    then obtain r1 i r2 where o: "o1 = Returns (Inr (r1, i))" "o2 = Returns (Inr r2)" by blast
    obtain o3 t3 where r: "fileTransfer env t2 d local i = (o3, t3)"
      by (cases "fileTransfer env t2 d local i")
    have q3: "quiet a t3" by (rule quiet_trans[OF q2 fileTransfer_q[OF r]])
    have "b = t3" using l n c o r
      by (auto simp: transfer_body_def Let_def split: outcome.splits sum.splits)
    then show ?thesis using q3 by simp
  next
    case False
    then have "b = t1 \<or> b = t2" using l n c
      by (auto simp: transfer_body_def Let_def split: outcome.splits sum.splits)
    then show ?thesis using q1 q2 by auto
  qed
qed

lemma quit_frame: "quit env a = (out, b) \<Longrightarrow> sameButHistory a b"
  by (auto simp: quit_def split: if_splits prod.splits outcome.splits dest: Command_frame)

lemma quit_result:
  "quit env a = (Returns (Inr r), b) \<Longrightarrow>
     command r = ''QUIT'' \<and> code r = 221 \<and> issued b = issued a @ [''QUIT'']"
  by (auto simp: quit_def codeMismatch_def split: if_splits prod.splits outcome.splits
      dest!: Command_result)

lemma deferredQuit_frame: "deferredQuit env (o1, t1) = (out, b) \<Longrightarrow> sameButHistory t1 b"
  by (cases "quit env t1")
     (auto simp: deferredQuit_def split: prod.splits outcome.splits sum.splits dest: quit_frame)

lemma deferredQuit_success:
  "deferredQuit env body = (Returns (res, x, None), b) \<Longrightarrow>
     \<exists>res0 err0 t0 r. body = (Returns (res0, x, err0), t0) \<and> res = res0 @ [r]
        \<and> quit env t0 = (Returns (Inr r), b)"
  by (auto simp: deferredQuit_def split: prod.splits outcome.splits sum.splits)

lemma Command_State: "Command env a cmd x = (out, b) \<Longrightarrow> State b = State a \<and> params b = params a"
  using Command_frame[of env a cmd x out b] by (simp add: sameButHistory_def)

lemma ReadResponse_State: "ReadResponse env a x = (out, b) \<Longrightarrow> State b = State a"
  using ReadResponse_frame[of env a x out b] by (simp add: sameButHistory_def)

lemma quiet_State: "quiet a b \<Longrightarrow> State b = State a"
  by (simp add: quiet_def sameButHistory_def)

lemma secureUpgrade_State: "secureUpgrade env a = (out, b) \<Longrightarrow> State b = State a \<and> params b = params a"
  by (auto simp: secureUpgrade_def Let_def split: outcome.splits prod.splits option.splits)

lemma auth_login_State: "auth_login env a res = (out, b) \<Longrightarrow> State b = State a"
  by (auto simp: auth_login_def split: prod.splits outcome.splits sum.splits dest!: Command_State)

lemma auth_State: "auth env a = (out, b) \<Longrightarrow> State b = State a"
  by (auto simp: auth_def split: if_splits prod.splits outcome.splits sum.splits option.splits
      dest!: Command_State secureUpgrade_State auth_login_State)

lemma options_type_State: "options_type env a res = (out, b) \<Longrightarrow> State b = State a"
  by (auto simp: options_type_def split: prod.splits outcome.splits sum.splits dest!: Command_State)

lemma options_State: "options env a = (out, b) \<Longrightarrow> State b = State a"
  by (auto simp: options_def split: if_splits prod.splits outcome.splits sum.splits
      dest!: Command_State options_type_State)

lemma rename_State: "rename env a old new = (out, b) \<Longrightarrow> State b = State a"
  by (auto simp: rename_def split: prod.splits outcome.splits sum.splits dest!: Command_State)

lemma quit_State: "quit env a = (out, b) \<Longrightarrow> State b = State a"
  using quit_frame[of env a out b] by (simp add: sameButHistory_def)

lemma deferredQuit_State: "deferredQuit env (o1, t1) = (out, b) \<Longrightarrow> State b = State t1"
  using deferredQuit_frame[of env o1 t1 out b] by (simp add: sameButHistory_def)

lemma list_State: "State (snd (list env a p)) = State a"
proof -
  obtain o1 t1 where b: "list_body env a p = (o1, t1)" by (cases "list_body env a p")
  have s1: "State t1 = State a" by (rule quiet_State[OF list_body_q[OF b]])
  obtain o2 t2 where d: "deferredQuit env (o1, t1) = (o2, t2)" by (cases "deferredQuit env (o1, t1)")
  have "State t2 = State t1" by (rule deferredQuit_State[OF d])
  then show ?thesis using s1 b d by (simp add: list_def)
qed

lemma transfer_State:
  assumes "cmd \<noteq> ''QUIT''"
  shows "State (snd (transfer_body env a dir cmd local)) = State a"
    and "State (snd (deferredQuit env (transfer_body env a dir cmd local))) = State a"
proof -
  obtain o1 t1 where b: "transfer_body env a dir cmd local = (o1, t1)"
    by (cases "transfer_body env a dir cmd local")
  have s1: "State t1 = State a" by (rule quiet_State[OF transfer_body_q[OF b assms]])
  obtain o2 t2 where d: "deferredQuit env (o1, t1) = (o2, t2)" by (cases "deferredQuit env (o1, t1)")
  have "State t2 = State t1" by (rule deferredQuit_State[OF d])
  then show "State (snd (transfer_body env a dir cmd local)) = State a"
    and "State (snd (deferredQuit env (transfer_body env a dir cmd local))) = State a"
    using s1 b d by simp_all
qed

lemma download_State: "State (snd (download env a local remote)) = State a"
  by (simp add: download_def transfer_State)

lemma upload_State: "State (snd (upload env a local remote)) = State a"
  by (simp add: upload_def transfer_State)

lemma connect_State: "connect env a = (out, b) \<Longrightarrow>
   (if \<exists>r. out = Returns (Inr r) then State b = ONLINE else State b = State a)"
  by (auto simp: connect_def Let_def
      split: if_splits prod.splits outcome.splits sum.splits option.splits list.splits
      dest!: ReadResponse_State)

lemma connect_greeting:
  "connect env a = (Returns (Inr r), b) \<Longrightarrow>
     command r = [] \<and> code r = 220 \<and> readLine env (nread a) = Inr (220, msg r)"
  by (auto simp: connect_def ReadResponse_def Let_def codeMismatch_def
      split: if_splits prod.splits outcome.splits sum.splits option.splits list.splits)

section \<open>Keep-alive and the closing exchange\<close>

lemma Command_reply:
  "Command env a cmd x = (Returns (Inr r), b) \<Longrightarrow>
     readLine env (nread a) = Inr (code r, msg r) \<and> nread b = Suc (nread a)"
  by (auto simp: Command_def ReadResponse_def Let_def
      split: option.splits if_splits prod.splits outcome.splits sum.splits)

lemma quit_reply:
  "quit env a = (Returns (Inr r), b) \<Longrightarrow>
     readLine env (nread a) = Inr (221, msg r) \<and> nread b = Suc (nread a)"
proof -
  assume q: "quit env a = (Returns (Inr r), b)"
  then have c: "Command env a ''QUIT'' 221 = (Returns (Inr r), b)"
    by (auto simp: quit_def split: if_splits prod.splits outcome.splits)
  from quit_result[OF q] Command_reply[OF c] show ?thesis by simp
qed

lemma deferredQuit_last:
  assumes "deferredQuit env body = (Returns (res, x, None), t)"
  shows "\<exists>res0 err0 t0 r. body = (Returns (res0, x, err0), t0)
            \<and> quit env t0 = (Returns (Inr r), t) \<and> res = res0 @ [r]
            \<and> command r = ''QUIT'' \<and> code r = 221
            \<and> readLine env (nread t0) = Inr (221, msg r)
            \<and> issued t = issued t0 @ [''QUIT'']"
proof -
  from deferredQuit_success[OF assms] obtain res0 err0 t0 r where
    r: "body = (Returns (res0, x, err0), t0)" "res = res0 @ [r]"
       "quit env t0 = (Returns (Inr r), t)" by blast
  from quit_result[OF r(3)] quit_reply[OF r(3)] r show ?thesis by auto
qed

text \<open>
  C6. With the keep-alive flag off, whenever \<open>list\<close>, \<open>download\<close> or \<open>upload\<close> returns without
  error, the returned list is the list of responses its body gathered with one more response
  appended, the response of the \<^verbatim>\<open>QUIT\<close> exchange: \<open>quit\<close> ran on the session the body left, its
  command is \<^verbatim>\<open>QUIT\<close>, its code 221 and its message the one the server sent in the reply read
  next, and \<^verbatim>\<open>QUIT\<close> is the last command issued. With the flag on, the operation is its body:
  whatever the outcome, the commands it issues extend the history and none of them is
  \<^verbatim>\<open>QUIT\<close>.
\<close>

theorem quit_exchange_by_keepAlive:
  "(\<not> keepAlive (params this) \<longrightarrow>
      (\<forall>res l t. list env this p = (Returns (res, l, None), t) \<longrightarrow>
         (\<exists>res0 err0 t0 r. list_body env this p = (Returns (res0, l, err0), t0)
            \<and> quit env t0 = (Returns (Inr r), t) \<and> res = res0 @ [r]
            \<and> command r = ''QUIT'' \<and> code r = 221
            \<and> readLine env (nread t0) = Inr (221, msg r)
            \<and> issued t = issued t0 @ [''QUIT'']))
    \<and> (\<forall>res n t. download env this local remote = (Returns (res, n, None), t) \<longrightarrow>
         (\<exists>res0 err0 t0 r.
            transfer_body env this DOWNLOAD (''RETR '' @ remote) local = (Returns (res0, n, err0), t0)
            \<and> quit env t0 = (Returns (Inr r), t) \<and> res = res0 @ [r]
            \<and> command r = ''QUIT'' \<and> code r = 221
            \<and> readLine env (nread t0) = Inr (221, msg r)
            \<and> issued t = issued t0 @ [''QUIT'']))
    \<and> (\<forall>res n t. upload env this local remote = (Returns (res, n, None), t) \<longrightarrow>
         (\<exists>res0 err0 t0 r.
            transfer_body env this UPLOAD (''STOR '' @ remote) local = (Returns (res0, n, err0), t0)
            \<and> quit env t0 = (Returns (Inr r), t) \<and> res = res0 @ [r]
            \<and> command r = ''QUIT'' \<and> code r = 221
            \<and> readLine env (nread t0) = Inr (221, msg r)
            \<and> issued t = issued t0 @ [''QUIT''])))
   \<and> (keepAlive (params this) \<longrightarrow>
        list env this p = list_body env this p
      \<and> download env this local remote
          = transfer_body env this DOWNLOAD (''RETR '' @ remote) local
      \<and> upload env this local remote
          = transfer_body env this UPLOAD (''STOR '' @ remote) local
      \<and> noQuitSince this (snd (list env this p))
      \<and> noQuitSince this (snd (download env this local remote))
      \<and> noQuitSince this (snd (upload env this local remote)))"
proof -
  have q1: "noQuitSince this (snd (list_body env this p))"
    using list_body_q[of env this p] by (cases "list_body env this p") (simp add: quiet_def)
  have q2: "noQuitSince this (snd (transfer_body env this DOWNLOAD (''RETR '' @ remote) local))"
    using transfer_body_q[of env this DOWNLOAD "''RETR '' @ remote" local]
    by (cases "transfer_body env this DOWNLOAD (''RETR '' @ remote) local") (simp add: quiet_def)
  have q3: "noQuitSince this (snd (transfer_body env this UPLOAD (''STOR '' @ remote) local))"
    using transfer_body_q[of env this UPLOAD "''STOR '' @ remote" local]
    by (cases "transfer_body env this UPLOAD (''STOR '' @ remote) local") (simp add: quiet_def)
  have a: "\<not> keepAlive (params this) \<Longrightarrow> list env this p = (Returns (res, l, None), t) \<Longrightarrow>
         (\<exists>res0 err0 t0 r. list_body env this p = (Returns (res0, l, err0), t0)
            \<and> quit env t0 = (Returns (Inr r), t) \<and> res = res0 @ [r]
            \<and> command r = ''QUIT'' \<and> code r = 221
            \<and> readLine env (nread t0) = Inr (221, msg r)
            \<and> issued t = issued t0 @ [''QUIT''])" for res l t
    using deferredQuit_last[of env "list_body env this p" res l t] by (simp add: list_def)
  have b: "\<not> keepAlive (params this) \<Longrightarrow>
         download env this local remote = (Returns (res, n, None), t) \<Longrightarrow>
         (\<exists>res0 err0 t0 r.
            transfer_body env this DOWNLOAD (''RETR '' @ remote) local = (Returns (res0, n, err0), t0)
            \<and> quit env t0 = (Returns (Inr r), t) \<and> res = res0 @ [r]
            \<and> command r = ''QUIT'' \<and> code r = 221
            \<and> readLine env (nread t0) = Inr (221, msg r)
            \<and> issued t = issued t0 @ [''QUIT''])" for res n t
    using deferredQuit_last[of env "transfer_body env this DOWNLOAD (''RETR '' @ remote) local" res n t]
    by (simp add: download_def)
  have c: "\<not> keepAlive (params this) \<Longrightarrow>
         upload env this local remote = (Returns (res, n, None), t) \<Longrightarrow>
         (\<exists>res0 err0 t0 r.
            transfer_body env this UPLOAD (''STOR '' @ remote) local = (Returns (res0, n, err0), t0)
            \<and> quit env t0 = (Returns (Inr r), t) \<and> res = res0 @ [r]
            \<and> command r = ''QUIT'' \<and> code r = 221
            \<and> readLine env (nread t0) = Inr (221, msg r)
            \<and> issued t = issued t0 @ [''QUIT''])" for res n t
    using deferredQuit_last[of env "transfer_body env this UPLOAD (''STOR '' @ remote) local" res n t]
    by (simp add: upload_def)
  have k: "keepAlive (params this) \<Longrightarrow>
        list env this p = list_body env this p
      \<and> download env this local remote
          = transfer_body env this DOWNLOAD (''RETR '' @ remote) local
      \<and> upload env this local remote
          = transfer_body env this UPLOAD (''STOR '' @ remote) local
      \<and> noQuitSince this (snd (list env this p))
      \<and> noQuitSince this (snd (download env this local remote))
      \<and> noQuitSince this (snd (upload env this local remote))"
    using q1 q2 q3 by (simp add: list_def download_def upload_def)
  show ?thesis using a b c k by blast
qed

lemma list_run:
  "list (scriptedEnv [(220, ''ready''), (227, ''Entering Passive Mode (10,0,0,5,200,13)''),
                      (150, ''Here comes''), (226, ''Done''), (221, ''Bye'')])
        (connected plainParams) ''/pub'' =
     (Returns ([\<lparr>command = ''PASV'', code = 227, msg = ''Entering Passive Mode (10,0,0,5,200,13)''\<rparr>,
                \<lparr>command = ''LIST -aL /pub'', code = 150, msg = ''Here comes''\<rparr>,
                \<lparr>command = [], code = 226, msg = ''Done''\<rparr>,
                \<lparr>command = ''QUIT'', code = 221, msg = ''Bye''\<rparr>], ''drwxr-xr-x pub'', None),
      (connected plainParams)\<lparr>issued := [''PASV'', ''LIST -aL /pub'', ''QUIT''], nread := 5\<rparr>)"
  by (simp add: list_def deferredQuit_def list_body_def negotiate_def pasv_def Command_def
      ReadResponse_def readBytes_def quit_def codeMismatch_def fixture_defs pasv_port_example Sprintf_d_3213 Let_def)

lemma download_run:
  "download (scriptedEnv [(220, ''ready''), (227, ''Entering Passive Mode (10,0,0,5,200,13)''),
                      (150, ''Opening''), (226, ''Done''), (221, ''Bye'')])
        (connected plainParams) ''local.bin'' ''remote.bin'' =
     (Returns ([\<lparr>command = ''PASV'', code = 227, msg = ''Entering Passive Mode (10,0,0,5,200,13)''\<rparr>,
                \<lparr>command = ''RETR remote.bin'', code = 150, msg = ''Opening''\<rparr>,
                \<lparr>command = [], code = 226, msg = ''Done''\<rparr>,
                \<lparr>command = ''QUIT'', code = 221, msg = ''Bye''\<rparr>], 0, None),
      (connected plainParams)\<lparr>issued := [''PASV'', ''RETR remote.bin'', ''QUIT''], nread := 5\<rparr>)"
  by (simp add: download_def deferredQuit_def transfer_body_def negotiate_def pasv_def Command_def
      ReadResponse_def fileTransfer_def quit_def codeMismatch_def fixture_defs pasv_port_example Sprintf_d_3213 Let_def)

lemma upload_run:
  "upload (scriptedEnv [(220, ''ready''), (227, ''Entering Passive Mode (10,0,0,5,200,13)''),
                      (150, ''Opening''), (226, ''Done''), (221, ''Bye'')])
        (connected plainParams) ''local.bin'' ''remote.bin'' =
     (Returns ([\<lparr>command = ''PASV'', code = 227, msg = ''Entering Passive Mode (10,0,0,5,200,13)''\<rparr>,
                \<lparr>command = ''STOR remote.bin'', code = 150, msg = ''Opening''\<rparr>,
                \<lparr>command = [], code = 226, msg = ''Done''\<rparr>,
                \<lparr>command = ''QUIT'', code = 221, msg = ''Bye''\<rparr>], 0, None),
      (connected plainParams)\<lparr>issued := [''PASV'', ''STOR remote.bin'', ''QUIT''], nread := 5\<rparr>)"
  by (simp add: upload_def deferredQuit_def transfer_body_def negotiate_def pasv_def Command_def
      ReadResponse_def fileTransfer_def quit_def codeMismatch_def fixture_defs pasv_port_example Sprintf_d_3213 Let_def)

lemma list_run_keepAlive:
  "issued (snd (list (scriptedEnv [(220, ''ready''), (227, ''Entering Passive Mode (10,0,0,5,200,13)''),
                      (150, ''Here comes''), (226, ''Done''), (221, ''Bye'')])
        (connected (plainParams\<lparr>keepAlive := True\<rparr>)) ''/pub'')) = [''PASV'', ''LIST -aL /pub'']"
  by (simp add: list_def deferredQuit_def list_body_def negotiate_def pasv_def Command_def
      ReadResponse_def readBytes_def quit_def codeMismatch_def fixture_defs pasv_port_example Sprintf_d_3213 Let_def)

theorem quit_exchange_by_keepAlive_witness:
  "\<not> keepAlive (params (connected plainParams))
   \<and> (\<exists>res0 err0 t0 r.
         list (scriptedEnv [(220, ''ready''), (227, ''Entering Passive Mode (10,0,0,5,200,13)''),
                            (150, ''Here comes''), (226, ''Done''), (221, ''Bye'')])
              (connected plainParams) ''/pub''
           = (Returns (res0 @ [r], ''drwxr-xr-x pub'', None),
              (connected plainParams)\<lparr>issued := [''PASV'', ''LIST -aL /pub'', ''QUIT''], nread := 5\<rparr>)
         \<and> list_body (scriptedEnv [(220, ''ready''), (227, ''Entering Passive Mode (10,0,0,5,200,13)''),
                            (150, ''Here comes''), (226, ''Done''), (221, ''Bye'')])
              (connected plainParams) ''/pub'' = (Returns (res0, ''drwxr-xr-x pub'', err0), t0)
         \<and> res0 = [\<lparr>command = ''PASV'', code = 227, msg = ''Entering Passive Mode (10,0,0,5,200,13)''\<rparr>,
                    \<lparr>command = ''LIST -aL /pub'', code = 150, msg = ''Here comes''\<rparr>,
                    \<lparr>command = [], code = 226, msg = ''Done''\<rparr>]
         \<and> r = \<lparr>command = ''QUIT'', code = 221, msg = ''Bye''\<rparr>)
   \<and> (\<exists>res0 err0 t0 r.
         download (scriptedEnv [(220, ''ready''), (227, ''Entering Passive Mode (10,0,0,5,200,13)''),
                            (150, ''Opening''), (226, ''Done''), (221, ''Bye'')])
              (connected plainParams) ''local.bin'' ''remote.bin''
           = (Returns (res0 @ [r], 0, None),
              (connected plainParams)\<lparr>issued := [''PASV'', ''RETR remote.bin'', ''QUIT''], nread := 5\<rparr>)
         \<and> transfer_body (scriptedEnv [(220, ''ready''), (227, ''Entering Passive Mode (10,0,0,5,200,13)''),
                            (150, ''Opening''), (226, ''Done''), (221, ''Bye'')])
              (connected plainParams) DOWNLOAD ''RETR remote.bin'' ''local.bin''
             = (Returns (res0, 0, err0), t0)
         \<and> res0 = [\<lparr>command = ''PASV'', code = 227, msg = ''Entering Passive Mode (10,0,0,5,200,13)''\<rparr>,
                    \<lparr>command = ''RETR remote.bin'', code = 150, msg = ''Opening''\<rparr>,
                    \<lparr>command = [], code = 226, msg = ''Done''\<rparr>]
         \<and> r = \<lparr>command = ''QUIT'', code = 221, msg = ''Bye''\<rparr>)
   \<and> (\<exists>res0 err0 t0 r.
         upload (scriptedEnv [(220, ''ready''), (227, ''Entering Passive Mode (10,0,0,5,200,13)''),
                            (150, ''Opening''), (226, ''Done''), (221, ''Bye'')])
              (connected plainParams) ''local.bin'' ''remote.bin''
           = (Returns (res0 @ [r], 0, None),
              (connected plainParams)\<lparr>issued := [''PASV'', ''STOR remote.bin'', ''QUIT''], nread := 5\<rparr>)
         \<and> transfer_body (scriptedEnv [(220, ''ready''), (227, ''Entering Passive Mode (10,0,0,5,200,13)''),
                            (150, ''Opening''), (226, ''Done''), (221, ''Bye'')])
              (connected plainParams) UPLOAD ''STOR remote.bin'' ''local.bin''
             = (Returns (res0, 0, err0), t0)
         \<and> res0 = [\<lparr>command = ''PASV'', code = 227, msg = ''Entering Passive Mode (10,0,0,5,200,13)''\<rparr>,
                    \<lparr>command = ''STOR remote.bin'', code = 150, msg = ''Opening''\<rparr>,
                    \<lparr>command = [], code = 226, msg = ''Done''\<rparr>]
         \<and> r = \<lparr>command = ''QUIT'', code = 221, msg = ''Bye''\<rparr>)
   \<and> keepAlive (params (connected (plainParams\<lparr>keepAlive := True\<rparr>)))
   \<and> issued (snd (list (scriptedEnv [(220, ''ready''), (227, ''Entering Passive Mode (10,0,0,5,200,13)''),
                            (150, ''Here comes''), (226, ''Done''), (221, ''Bye'')])
              (connected (plainParams\<lparr>keepAlive := True\<rparr>)) ''/pub'')) = [''PASV'', ''LIST -aL /pub'']
   \<and> noQuitSince (connected (plainParams\<lparr>keepAlive := True\<rparr>))
        (snd (list (scriptedEnv [(220, ''ready''), (227, ''Entering Passive Mode (10,0,0,5,200,13)''),
                            (150, ''Here comes''), (226, ''Done''), (221, ''Bye'')])
              (connected (plainParams\<lparr>keepAlive := True\<rparr>)) ''/pub''))"
proof -
  let ?E = "scriptedEnv [(220, ''ready''), (227, ''Entering Passive Mode (10,0,0,5,200,13)''),
                            (150, ''Here comes''), (226, ''Done''), (221, ''Bye'')]"
  let ?E' = "scriptedEnv [(220, ''ready''), (227, ''Entering Passive Mode (10,0,0,5,200,13)''),
                            (150, ''Opening''), (226, ''Done''), (221, ''Bye'')]"
  let ?S = "connected plainParams"
  let ?K = "connected (plainParams\<lparr>keepAlive := True\<rparr>)"
  have nk: "\<not> keepAlive (params ?S)" and k: "keepAlive (params ?K)"
    by (simp_all add: fixture_defs)
  note T = quit_exchange_by_keepAlive[of ?S ?E "''/pub''" "''local.bin''" "''remote.bin''"]
  note T' = quit_exchange_by_keepAlive[of ?S ?E' "''/pub''" "''local.bin''" "''remote.bin''"]
  note TK = quit_exchange_by_keepAlive[of ?K ?E "''/pub''" "''local.bin''" "''remote.bin''"]
  from T[THEN conjunct1, THEN mp, OF nk, THEN conjunct1, THEN spec, THEN spec, THEN spec,
         THEN mp, OF list_run]
  obtain res0 err0 t0 r where
    a: "list_body ?E ?S ''/pub'' = (Returns (res0, ''drwxr-xr-x pub'', err0), t0)"
       "[\<lparr>command = ''PASV'', code = 227, msg = ''Entering Passive Mode (10,0,0,5,200,13)''\<rparr>,
         \<lparr>command = ''LIST -aL /pub'', code = 150, msg = ''Here comes''\<rparr>,
         \<lparr>command = [], code = 226, msg = ''Done''\<rparr>,
         \<lparr>command = ''QUIT'', code = 221, msg = ''Bye''\<rparr>] = res0 @ [r]"
    by blast
  have a': "res0 = [\<lparr>command = ''PASV'', code = 227, msg = ''Entering Passive Mode (10,0,0,5,200,13)''\<rparr>,
                    \<lparr>command = ''LIST -aL /pub'', code = 150, msg = ''Here comes''\<rparr>,
                    \<lparr>command = [], code = 226, msg = ''Done''\<rparr>]
            \<and> r = \<lparr>command = ''QUIT'', code = 221, msg = ''Bye''\<rparr>"
    using a(2) append1_eq_conv[of "[\<lparr>command = ''PASV'', code = 227, msg = ''Entering Passive Mode (10,0,0,5,200,13)''\<rparr>,
                    \<lparr>command = ''LIST -aL /pub'', code = 150, msg = ''Here comes''\<rparr>,
                    \<lparr>command = [], code = 226, msg = ''Done''\<rparr>]"
          "\<lparr>command = ''QUIT'', code = 221, msg = ''Bye''\<rparr>" res0 r]
    by simp
  from T'[THEN conjunct1, THEN mp, OF nk, THEN conjunct2, THEN conjunct1, THEN spec, THEN spec,
          THEN spec, THEN mp, OF download_run]
  obtain dres0 derr0 dt0 dr where
    b: "transfer_body ?E' ?S DOWNLOAD (''RETR '' @ ''remote.bin'') ''local.bin''
          = (Returns (dres0, 0, derr0), dt0)"
       "[\<lparr>command = ''PASV'', code = 227, msg = ''Entering Passive Mode (10,0,0,5,200,13)''\<rparr>,
         \<lparr>command = ''RETR remote.bin'', code = 150, msg = ''Opening''\<rparr>,
         \<lparr>command = [], code = 226, msg = ''Done''\<rparr>,
         \<lparr>command = ''QUIT'', code = 221, msg = ''Bye''\<rparr>] = dres0 @ [dr]"
    by blast
  have b': "dres0 = [\<lparr>command = ''PASV'', code = 227, msg = ''Entering Passive Mode (10,0,0,5,200,13)''\<rparr>,
                    \<lparr>command = ''RETR remote.bin'', code = 150, msg = ''Opening''\<rparr>,
                    \<lparr>command = [], code = 226, msg = ''Done''\<rparr>]
            \<and> dr = \<lparr>command = ''QUIT'', code = 221, msg = ''Bye''\<rparr>"
    using b(2) append1_eq_conv[of "[\<lparr>command = ''PASV'', code = 227, msg = ''Entering Passive Mode (10,0,0,5,200,13)''\<rparr>,
                    \<lparr>command = ''RETR remote.bin'', code = 150, msg = ''Opening''\<rparr>,
                    \<lparr>command = [], code = 226, msg = ''Done''\<rparr>]"
          "\<lparr>command = ''QUIT'', code = 221, msg = ''Bye''\<rparr>" dres0 dr]
    by simp
  from T'[THEN conjunct1, THEN mp, OF nk, THEN conjunct2, THEN conjunct2, THEN spec, THEN spec,
          THEN spec, THEN mp, OF upload_run]
  obtain ures0 uerr0 ut0 ur where
    c: "transfer_body ?E' ?S UPLOAD (''STOR '' @ ''remote.bin'') ''local.bin''
          = (Returns (ures0, 0, uerr0), ut0)"
       "[\<lparr>command = ''PASV'', code = 227, msg = ''Entering Passive Mode (10,0,0,5,200,13)''\<rparr>,
         \<lparr>command = ''STOR remote.bin'', code = 150, msg = ''Opening''\<rparr>,
         \<lparr>command = [], code = 226, msg = ''Done''\<rparr>,
         \<lparr>command = ''QUIT'', code = 221, msg = ''Bye''\<rparr>] = ures0 @ [ur]"
    by blast
  have c': "ures0 = [\<lparr>command = ''PASV'', code = 227, msg = ''Entering Passive Mode (10,0,0,5,200,13)''\<rparr>,
                    \<lparr>command = ''STOR remote.bin'', code = 150, msg = ''Opening''\<rparr>,
                    \<lparr>command = [], code = 226, msg = ''Done''\<rparr>]
            \<and> ur = \<lparr>command = ''QUIT'', code = 221, msg = ''Bye''\<rparr>"
    using c(2) append1_eq_conv[of "[\<lparr>command = ''PASV'', code = 227, msg = ''Entering Passive Mode (10,0,0,5,200,13)''\<rparr>,
                    \<lparr>command = ''STOR remote.bin'', code = 150, msg = ''Opening''\<rparr>,
                    \<lparr>command = [], code = 226, msg = ''Done''\<rparr>]"
          "\<lparr>command = ''QUIT'', code = 221, msg = ''Bye''\<rparr>" ures0 ur]
    by simp
  have d: "noQuitSince ?K (snd (list ?E ?K ''/pub''))"
    using TK[THEN conjunct2, THEN mp, OF k] by blast
  have A: "\<exists>res0 err0 t0 r.
         list ?E ?S ''/pub''
           = (Returns (res0 @ [r], ''drwxr-xr-x pub'', None),
              ?S\<lparr>issued := [''PASV'', ''LIST -aL /pub'', ''QUIT''], nread := 5\<rparr>)
         \<and> list_body ?E ?S ''/pub'' = (Returns (res0, ''drwxr-xr-x pub'', err0), t0)
         \<and> res0 = [\<lparr>command = ''PASV'', code = 227, msg = ''Entering Passive Mode (10,0,0,5,200,13)''\<rparr>,
                    \<lparr>command = ''LIST -aL /pub'', code = 150, msg = ''Here comes''\<rparr>,
                    \<lparr>command = [], code = 226, msg = ''Done''\<rparr>]
         \<and> r = \<lparr>command = ''QUIT'', code = 221, msg = ''Bye''\<rparr>"
    using a(1) a' list_run by (intro exI[of _ res0] exI[of _ err0] exI[of _ t0] exI[of _ r]) simp
  have B: "\<exists>res0 err0 t0 r.
         download ?E' ?S ''local.bin'' ''remote.bin''
           = (Returns (res0 @ [r], 0, None),
              ?S\<lparr>issued := [''PASV'', ''RETR remote.bin'', ''QUIT''], nread := 5\<rparr>)
         \<and> transfer_body ?E' ?S DOWNLOAD ''RETR remote.bin'' ''local.bin''
             = (Returns (res0, 0, err0), t0)
         \<and> res0 = [\<lparr>command = ''PASV'', code = 227, msg = ''Entering Passive Mode (10,0,0,5,200,13)''\<rparr>,
                    \<lparr>command = ''RETR remote.bin'', code = 150, msg = ''Opening''\<rparr>,
                    \<lparr>command = [], code = 226, msg = ''Done''\<rparr>]
         \<and> r = \<lparr>command = ''QUIT'', code = 221, msg = ''Bye''\<rparr>"
    using b(1) b' download_run by (intro exI[of _ dres0] exI[of _ derr0] exI[of _ dt0] exI[of _ dr]) simp
  have C: "\<exists>res0 err0 t0 r.
         upload ?E' ?S ''local.bin'' ''remote.bin''
           = (Returns (res0 @ [r], 0, None),
              ?S\<lparr>issued := [''PASV'', ''STOR remote.bin'', ''QUIT''], nread := 5\<rparr>)
         \<and> transfer_body ?E' ?S UPLOAD ''STOR remote.bin'' ''local.bin''
             = (Returns (res0, 0, err0), t0)
         \<and> res0 = [\<lparr>command = ''PASV'', code = 227, msg = ''Entering Passive Mode (10,0,0,5,200,13)''\<rparr>,
                    \<lparr>command = ''STOR remote.bin'', code = 150, msg = ''Opening''\<rparr>,
                    \<lparr>command = [], code = 226, msg = ''Done''\<rparr>]
         \<and> r = \<lparr>command = ''QUIT'', code = 221, msg = ''Bye''\<rparr>"
    using c(1) c' upload_run by (intro exI[of _ ures0] exI[of _ uerr0] exI[of _ ut0] exI[of _ ur]) simp
  show ?thesis
    by (rule conjI[OF nk conjI[OF A conjI[OF B conjI[OF C conjI[OF k conjI[OF list_run_keepAlive d]]]]]])
qed

section \<open>The session state\<close>

lemma connect_new_online_iff:
  "State (snd (connect env (newFtp p))) = ONLINE \<longleftrightarrow>
     (\<exists>ip0 ips m. LookupIP env (host p) = Inr (ip0 # ips)
        \<and> parseTIMEOUT env = None \<and> parseKEEPALIVE env = None
        \<and> (if secure p \<and> secureMode p = IMPLICIT
            then (\<exists>conf. getTLSConfig env (newFtp p) = Returns (conf, None)
                    \<and> tlsDial env (ip0 @ '':'' @ Sprintf_d (ctrlPort p)) conf = None)
            else Dial env (ip0 @ '':'' @ Sprintf_d (ctrlPort p)) = None)
        \<and> readLine env 0 = Inr (220, m))"
  by (auto simp: connect_def ReadResponse_def newFtp_def Let_def codeMismatch_def
      split: sum.splits list.splits option.splits outcome.splits prod.splits if_splits)

lemma connect_resolution_failure:
  "LookupIP env (host (params this)) = Inl e \<Longrightarrow> connect env this = (Returns (Inl e), this)"
  by (simp add: connect_def)

lemma connect_dial_failure:
  assumes "LookupIP env (host (params this)) = Inr (ip0 # ips)"
      and "parseTIMEOUT env = None" "parseKEEPALIVE env = None"
      and "\<not> (secure (params this) \<and> secureMode (params this) = IMPLICIT)"
      and "Dial env (ip0 @ '':'' @ Sprintf_d (ctrlPort (params this))) = Some e"
  shows "connect env this = (Returns (Inl e), this\<lparr>rawConn := None\<rparr>)"
  using assms by (auto simp: connect_def Let_def)

lemma connect_tlsDial_failure:
  assumes "LookupIP env (host (params this)) = Inr (ip0 # ips)"
      and "parseTIMEOUT env = None" "parseKEEPALIVE env = None"
      and "secure (params this) \<and> secureMode (params this) = IMPLICIT"
      and "getTLSConfig env this = Returns (conf, None)"
      and "tlsDial env (ip0 @ '':'' @ Sprintf_d (ctrlPort (params this))) conf = Some e"
  shows "connect env this = (Returns (Inl e), this\<lparr>tlsConn := None\<rparr>)"
  using assms by (auto simp: connect_def Let_def)

lemma connect_greeting_failure:
  assumes "connect env this = (out, t)"
      and "readLine env (nread this) = Inl e \<or> (\<exists>c m. readLine env (nread this) = Inr (c, m) \<and> c \<noteq> 220)"
  shows "(\<nexists>r. out = Returns (Inr r)) \<and> State t = State this"
proof -
  have n: "\<nexists>r. out = Returns (Inr r)"
    using connect_greeting[of env this _ t] assms by auto
  then show ?thesis using connect_State[OF assms(1)] by simp
qed

lemma state_lifecycle_results:
  "State (newFtp p) = OFFLINE
   \<and> (State (snd (connect env (newFtp p))) = ONLINE \<longleftrightarrow>
        (\<exists>r. fst (connect env (newFtp p)) = Returns (Inr r) \<and> code r = 220
              \<and> readLine env 0 = Inr (220, msg r)))
   \<and> ((\<nexists>r. fst (connect env (newFtp p)) = Returns (Inr r)) \<longrightarrow>
        State (snd (connect env (newFtp p))) = OFFLINE)
   \<and> (State this = ONLINE \<longrightarrow>
        State (snd (connect env this)) = ONLINE
      \<and> State (snd (secureUpgrade env this)) = ONLINE
      \<and> State (snd (auth env this)) = ONLINE
      \<and> State (snd (Command env this cmd expect)) = ONLINE
      \<and> State (snd (options env this)) = ONLINE
      \<and> State (snd (port env this)) = ONLINE
      \<and> State (snd (pasv env this)) = ONLINE
      \<and> State (snd (readBytes env this i)) = ONLINE
      \<and> State (snd (fileTransfer env this dir uri i)) = ONLINE
      \<and> State (snd (quit env this)) = ONLINE
      \<and> State (snd (list env this path)) = ONLINE
      \<and> State (snd (download env this local remote)) = ONLINE
      \<and> State (snd (upload env this local remote)) = ONLINE
      \<and> State (snd (mkdir env this path)) = ONLINE
      \<and> State (snd (rmdir env this path)) = ONLINE
      \<and> State (snd (delete env this path)) = ONLINE
      \<and> State (snd (rename env this old new)) = ONLINE)"
proof -
  have n: "State (newFtp p) = OFFLINE" "nread (newFtp p) = 0" by (simp_all add: newFtp_def)
  obtain out b where c: "connect env (newFtp p) = (out, b)" by (cases "connect env (newFtp p)")
  have c1: "State b = ONLINE \<longleftrightarrow>
        (\<exists>r. out = Returns (Inr r) \<and> code r = 220 \<and> readLine env 0 = Inr (220, msg r))"
  proof (cases "\<exists>r. out = Returns (Inr r)")
    case True
    then obtain r where r: "out = Returns (Inr r)" by blast
    have "State b = ONLINE" using connect_State[OF c] r by simp
    moreover have "code r = 220 \<and> readLine env 0 = Inr (220, msg r)"
      using connect_greeting[of env "newFtp p" r b] c r n(2) by simp
    ultimately show ?thesis using r by blast
  next
    case False
    then have "State b = OFFLINE" using connect_State[OF c] n(1) by simp
    then show ?thesis using False by auto
  qed
  have c2: "(\<nexists>r. out = Returns (Inr r)) \<longrightarrow> State b = OFFLINE"
    using connect_State[OF c] n by auto
  have s: "State (snd (connect env this)) = ONLINE \<or> State (snd (connect env this)) = State this"
    using connect_State[of env this "fst (connect env this)" "snd (connect env this)"]
    by (auto split: if_splits)
  have e: "State (snd (secureUpgrade env this)) = State this"
          "State (snd (auth env this)) = State this"
          "State (snd (Command env this cmd expect)) = State this"
          "State (snd (options env this)) = State this"
          "State (snd (port env this)) = State this"
          "State (snd (pasv env this)) = State this"
          "State (snd (readBytes env this i)) = State this"
          "State (snd (fileTransfer env this dir uri i)) = State this"
          "State (snd (quit env this)) = State this"
          "State (snd (rename env this old new)) = State this"
    using secureUpgrade_State[of env this "fst (secureUpgrade env this)" "snd (secureUpgrade env this)"]
          auth_State[of env this "fst (auth env this)" "snd (auth env this)"]
          Command_State[of env this cmd expect "fst (Command env this cmd expect)"
                           "snd (Command env this cmd expect)"]
          options_State[of env this "fst (options env this)" "snd (options env this)"]
          quiet_State[OF port_q[of env this "fst (port env this)" "snd (port env this)"]]
          quiet_State[OF pasv_q[of env this "fst (pasv env this)" "snd (pasv env this)"]]
          quiet_State[OF readBytes_q[of env this i "fst (readBytes env this i)"
                                        "snd (readBytes env this i)"]]
          quiet_State[OF fileTransfer_q[of env this dir uri i "fst (fileTransfer env this dir uri i)"
                                        "snd (fileTransfer env this dir uri i)"]]
          quit_State[of env this "fst (quit env this)" "snd (quit env this)"]
          rename_State[of env this old new "fst (rename env this old new)"
                          "snd (rename env this old new)"]
    by simp_all
  have m: "State (snd (mkdir env this path)) = State this"
          "State (snd (rmdir env this path)) = State this"
          "State (snd (delete env this path)) = State this"
    using Command_State[of env this "''MKD '' @ path" 257 "fst (mkdir env this path)"
                           "snd (mkdir env this path)"]
          Command_State[of env this "''RMD '' @ path" 250 "fst (rmdir env this path)"
                           "snd (rmdir env this path)"]
          Command_State[of env this "''DELE '' @ path" 200 "fst (delete env this path)"
                           "snd (delete env this path)"]
    by (simp_all add: mkdir_def rmdir_def delete_def)
  show ?thesis
    using n(1) c c1 c2 s e m list_State[of env this path]
      download_State[of env this local remote] upload_State[of env this local remote]
    by auto
qed

text \<open>
  C8. A new session is \<open>OFFLINE\<close>. \<open>connect\<close> on a new session makes it \<open>ONLINE\<close> exactly when
  it returns the response of the greeting, which then is the first response read and has
  code 220; in terms of the environment, exactly when the resolution gives an address, the
  two durations parse, the dial (the TLS dial in implicit mode, with its configuration
  assembled) succeeds and the first response read has code 220. A failed resolution, a
  failed dial and a failed or different greeting each leave the session \<open>OFFLINE\<close>, the first
  two returning their error. No operation takes a session that is \<open>ONLINE\<close> to another state.
\<close>

theorem state_lifecycle:
  "State (newFtp p) = OFFLINE
   \<and> (State (snd (connect env (newFtp p))) = ONLINE \<longleftrightarrow>
        (\<exists>r. fst (connect env (newFtp p)) = Returns (Inr r) \<and> code r = 220
              \<and> readLine env 0 = Inr (220, msg r)))
   \<and> ((\<nexists>r. fst (connect env (newFtp p)) = Returns (Inr r)) \<longrightarrow>
        State (snd (connect env (newFtp p))) = OFFLINE)
   \<and> (State (snd (connect env (newFtp p))) = ONLINE \<longleftrightarrow>
        (\<exists>ip0 ips m. LookupIP env (host p) = Inr (ip0 # ips)
           \<and> parseTIMEOUT env = None \<and> parseKEEPALIVE env = None
           \<and> (if secure p \<and> secureMode p = IMPLICIT
               then (\<exists>conf. getTLSConfig env (newFtp p) = Returns (conf, None)
                       \<and> tlsDial env (ip0 @ '':'' @ Sprintf_d (ctrlPort p)) conf = None)
               else Dial env (ip0 @ '':'' @ Sprintf_d (ctrlPort p)) = None)
           \<and> readLine env 0 = Inr (220, m)))
   \<and> (\<forall>e. LookupIP env (host p) = Inl e \<longrightarrow>
         fst (connect env (newFtp p)) = Returns (Inl e)
         \<and> State (snd (connect env (newFtp p))) = OFFLINE)
   \<and> (\<forall>ip0 ips e. LookupIP env (host p) = Inr (ip0 # ips) \<longrightarrow>
         parseTIMEOUT env = None \<longrightarrow> parseKEEPALIVE env = None \<longrightarrow>
         \<not> (secure p \<and> secureMode p = IMPLICIT) \<longrightarrow>
         Dial env (ip0 @ '':'' @ Sprintf_d (ctrlPort p)) = Some e \<longrightarrow>
         fst (connect env (newFtp p)) = Returns (Inl e)
         \<and> State (snd (connect env (newFtp p))) = OFFLINE)
   \<and> (\<forall>ip0 ips conf e. LookupIP env (host p) = Inr (ip0 # ips) \<longrightarrow>
         parseTIMEOUT env = None \<longrightarrow> parseKEEPALIVE env = None \<longrightarrow>
         secure p \<and> secureMode p = IMPLICIT \<longrightarrow>
         getTLSConfig env (newFtp p) = Returns (conf, None) \<longrightarrow>
         tlsDial env (ip0 @ '':'' @ Sprintf_d (ctrlPort p)) conf = Some e \<longrightarrow>
         fst (connect env (newFtp p)) = Returns (Inl e)
         \<and> State (snd (connect env (newFtp p))) = OFFLINE)
   \<and> ((\<exists>e. readLine env 0 = Inl e) \<or> (\<exists>c m. readLine env 0 = Inr (c, m) \<and> c \<noteq> 220) \<longrightarrow>
         (\<nexists>r. fst (connect env (newFtp p)) = Returns (Inr r))
         \<and> State (snd (connect env (newFtp p))) = OFFLINE)
   \<and> (State this = ONLINE \<longrightarrow>
        State (snd (connect env this)) = ONLINE
      \<and> State (snd (secureUpgrade env this)) = ONLINE
      \<and> State (snd (auth env this)) = ONLINE
      \<and> State (snd (Command env this cmd expect)) = ONLINE
      \<and> State (snd (options env this)) = ONLINE
      \<and> State (snd (port env this)) = ONLINE
      \<and> State (snd (pasv env this)) = ONLINE
      \<and> State (snd (readBytes env this i)) = ONLINE
      \<and> State (snd (fileTransfer env this dir uri i)) = ONLINE
      \<and> State (snd (quit env this)) = ONLINE
      \<and> State (snd (list env this path)) = ONLINE
      \<and> State (snd (download env this local remote)) = ONLINE
      \<and> State (snd (upload env this local remote)) = ONLINE
      \<and> State (snd (mkdir env this path)) = ONLINE
      \<and> State (snd (rmdir env this path)) = ONLINE
      \<and> State (snd (delete env this path)) = ONLINE
      \<and> State (snd (rename env this old new)) = ONLINE)"
proof -
  note R = state_lifecycle_results[of p env this cmd expect i dir uri path local remote old new]
  have n: "State (newFtp p) = OFFLINE" "nread (newFtp p) = 0" "params (newFtp p) = p"
    by (simp_all add: newFtp_def)
  have o1: "State (newFtp p) = OFFLINE" by (rule R[THEN conjunct1])
  note o2 = R[THEN conjunct2, THEN conjunct1]
  note o3 = R[THEN conjunct2, THEN conjunct2, THEN conjunct1]
  note o4 = R[THEN conjunct2, THEN conjunct2, THEN conjunct2]
  note n1 = connect_new_online_iff[of env p]
  have n2: "\<forall>e. LookupIP env (host p) = Inl e \<longrightarrow>
         fst (connect env (newFtp p)) = Returns (Inl e)
         \<and> State (snd (connect env (newFtp p))) = OFFLINE"
    using connect_resolution_failure[of env "newFtp p"] n by simp
  have n3: "\<forall>ip0 ips e. LookupIP env (host p) = Inr (ip0 # ips) \<longrightarrow>
         parseTIMEOUT env = None \<longrightarrow> parseKEEPALIVE env = None \<longrightarrow>
         \<not> (secure p \<and> secureMode p = IMPLICIT) \<longrightarrow>
         Dial env (ip0 @ '':'' @ Sprintf_d (ctrlPort p)) = Some e \<longrightarrow>
         fst (connect env (newFtp p)) = Returns (Inl e)
         \<and> State (snd (connect env (newFtp p))) = OFFLINE"
    using connect_dial_failure[of env "newFtp p"] n by simp
  have n4: "\<forall>ip0 ips conf e. LookupIP env (host p) = Inr (ip0 # ips) \<longrightarrow>
         parseTIMEOUT env = None \<longrightarrow> parseKEEPALIVE env = None \<longrightarrow>
         secure p \<and> secureMode p = IMPLICIT \<longrightarrow>
         getTLSConfig env (newFtp p) = Returns (conf, None) \<longrightarrow>
         tlsDial env (ip0 @ '':'' @ Sprintf_d (ctrlPort p)) conf = Some e \<longrightarrow>
         fst (connect env (newFtp p)) = Returns (Inl e)
         \<and> State (snd (connect env (newFtp p))) = OFFLINE"
    using connect_tlsDial_failure[of env "newFtp p"] n by simp
  have n5: "(\<exists>e. readLine env 0 = Inl e) \<or> (\<exists>c m. readLine env 0 = Inr (c, m) \<and> c \<noteq> 220) \<longrightarrow>
         (\<nexists>r. fst (connect env (newFtp p)) = Returns (Inr r))
         \<and> State (snd (connect env (newFtp p))) = OFFLINE"
    using connect_greeting_failure[of env "newFtp p" "fst (connect env (newFtp p))"
        "snd (connect env (newFtp p))"] n
    by auto
  show ?thesis
    by (rule conjI[OF o1 conjI[OF o2 conjI[OF o3 conjI[OF n1 conjI[OF n2 conjI[OF n3
          conjI[OF n4 conjI[OF n5 o4]]]]]]]])
qed

theorem state_lifecycle_witness:
  "State (newFtp plainParams) = OFFLINE
   \<and> State (snd (connect (scriptedEnv [(220, ''ready'')]) (newFtp plainParams))) = ONLINE
   \<and> State (snd (connect ((scriptedEnv [(220, ''ready'')])
                            \<lparr>LookupIP := (\<lambda>h. Inl (IOError ''no such host''))\<rparr>)
                         (newFtp plainParams))) = OFFLINE
   \<and> State (snd (connect ((scriptedEnv [(220, ''ready'')])
                            \<lparr>Dial := (\<lambda>a. Some (IOError ''connection refused''))\<rparr>)
                         (newFtp plainParams))) = OFFLINE
   \<and> State (snd (connect ((scriptedEnv [(220, ''ready'')])
                            \<lparr>tlsDial := (\<lambda>a c. Some (IOError ''handshake failure''))\<rparr>)
                         (newFtp (plainParams\<lparr>secure := True, secureMode := IMPLICIT\<rparr>)))) = OFFLINE
   \<and> State (snd (connect (scriptedEnv [(421, ''busy'')]) (newFtp plainParams))) = OFFLINE
   \<and> State (snd (connect (scriptedEnv []) (newFtp plainParams))) = OFFLINE
   \<and> State (connected plainParams) = ONLINE
   \<and> State (snd (quit (scriptedEnv [(220, ''ready''), (221, ''Bye'')]) (connected plainParams))) = ONLINE"
proof -
  let ?P = "plainParams"
  let ?I = "plainParams\<lparr>secure := True, secureMode := IMPLICIT\<rparr>"
  let ?E = "scriptedEnv [(220, ''ready'')]"
  let ?Edns = "?E\<lparr>LookupIP := (\<lambda>h. Inl (IOError ''no such host''))\<rparr>"
  let ?Edial = "?E\<lparr>Dial := (\<lambda>a. Some (IOError ''connection refused''))\<rparr>"
  let ?Etls = "?E\<lparr>tlsDial := (\<lambda>a c. Some (IOError ''handshake failure''))\<rparr>"
  have ok: "LookupIP ?E (host ?P) = Inr [''192.0.2.7'']" "parseTIMEOUT ?E = None"
      "parseKEEPALIVE ?E = None" "\<not> (secure ?P \<and> secureMode ?P = IMPLICIT)"
      "Dial ?E (''192.0.2.7'' @ '':'' @ Sprintf_d (ctrlPort ?P)) = None"
      "readLine ?E 0 = Inr (220, ''ready'')"
    by (simp_all add: fixture_defs)
  have dns: "LookupIP ?Edns (host ?P) = Inl (IOError ''no such host'')"
    by (simp add: fixture_defs)
  have dial: "LookupIP ?Edial (host ?P) = Inr [''192.0.2.7'']" "parseTIMEOUT ?Edial = None"
      "parseKEEPALIVE ?Edial = None" "\<not> (secure ?P \<and> secureMode ?P = IMPLICIT)"
      "Dial ?Edial (''192.0.2.7'' @ '':'' @ Sprintf_d (ctrlPort ?P)) = Some (IOError ''connection refused'')"
    by (simp_all add: fixture_defs)
  have tls: "LookupIP ?Etls (host ?I) = Inr [''192.0.2.7'']" "parseTIMEOUT ?Etls = None"
      "parseKEEPALIVE ?Etls = None" "secure ?I \<and> secureMode ?I = IMPLICIT"
      "\<exists>conf. getTLSConfig ?Etls (newFtp ?I) = Returns (conf, None)
          \<and> tlsDial ?Etls (''192.0.2.7'' @ '':'' @ Sprintf_d (ctrlPort ?I)) conf
              = Some (IOError ''handshake failure'')"
    by (simp_all add: fixture_defs getTLSConfig_def)
  have g1: "\<exists>c m. readLine (scriptedEnv [(421, ''busy'')]) 0 = Inr (c, m) \<and> c \<noteq> 220"
    by (simp add: scriptedEnv_def)
  have g2: "\<exists>e. readLine (scriptedEnv []) 0 = Inl e"
    by (simp add: scriptedEnv_def)
  have o: "State (connected plainParams) = ONLINE" by (simp add: connected_def)
  note t = state_lifecycle[of ?P ?E]
  note tdns = state_lifecycle[of ?P ?Edns]
  note tdial = state_lifecycle[of ?P ?Edial]
  note ttls = state_lifecycle[of ?I ?Etls]
  note tg1 = state_lifecycle[of ?P "scriptedEnv [(421, ''busy'')]"]
  note tg2 = state_lifecycle[of ?P "scriptedEnv []"]
  note tq = state_lifecycle[of _ "scriptedEnv [(220, ''ready''), (221, ''Bye'')]" "connected plainParams"]
  have a: "State (snd (connect ?E (newFtp ?P))) = ONLINE"
    using t ok by (auto simp del: append.simps)
  have b: "State (snd (connect ?Edns (newFtp ?P))) = OFFLINE"
    using tdns[THEN conjunct2, THEN conjunct2, THEN conjunct2, THEN conjunct2, THEN conjunct1, THEN spec, THEN mp, OF dns] by (rule conjunct2)
  have c: "State (snd (connect ?Edial (newFtp ?P))) = OFFLINE"
    using tdial[THEN conjunct2, THEN conjunct2, THEN conjunct2, THEN conjunct2, THEN conjunct2, THEN conjunct1, THEN spec, THEN spec, THEN spec, THEN mp, OF dial(1),
        THEN mp, OF dial(2), THEN mp, OF dial(3), THEN mp, OF dial(4), THEN mp, OF dial(5)]
    by (rule conjunct2)
  obtain conf where cf: "getTLSConfig ?Etls (newFtp ?I) = Returns (conf, None)"
      "tlsDial ?Etls (''192.0.2.7'' @ '':'' @ Sprintf_d (ctrlPort ?I)) conf
         = Some (IOError ''handshake failure'')"
    using tls(5) by blast
  have d: "State (snd (connect ?Etls (newFtp ?I))) = OFFLINE"
    using ttls[THEN conjunct2, THEN conjunct2, THEN conjunct2, THEN conjunct2, THEN conjunct2, THEN conjunct2, THEN conjunct1, THEN spec, THEN spec, THEN spec, THEN spec,
        THEN mp, OF tls(1), THEN mp, OF tls(2), THEN mp, OF tls(3), THEN mp, OF tls(4),
        THEN mp, OF cf(1), THEN mp, OF cf(2)]
    by (rule conjunct2)
  have e: "State (snd (connect (scriptedEnv [(421, ''busy'')]) (newFtp ?P))) = OFFLINE"
    using tg1[THEN conjunct2, THEN conjunct2, THEN conjunct2, THEN conjunct2, THEN conjunct2, THEN conjunct2, THEN conjunct2, THEN conjunct1, THEN mp, OF disjI2[OF g1]] by (rule conjunct2)
  have f: "State (snd (connect (scriptedEnv []) (newFtp ?P))) = OFFLINE"
    using tg2[THEN conjunct2, THEN conjunct2, THEN conjunct2, THEN conjunct2, THEN conjunct2, THEN conjunct2, THEN conjunct2, THEN conjunct1, THEN mp, OF disjI1[OF g2]] by (rule conjunct2)
  have g: "State (snd (quit (scriptedEnv [(220, ''ready''), (221, ''Bye'')]) (connected plainParams))) = ONLINE"
    using tq[THEN conjunct2, THEN conjunct2, THEN conjunct2, THEN conjunct2, THEN conjunct2, THEN conjunct2, THEN conjunct2, THEN conjunct2, THEN mp, OF o] by blast
  have h: "State (newFtp plainParams) = OFFLINE" by (rule t[THEN conjunct1])
  show ?thesis using a b c d e f g h o by blast
qed

end
